theory Spec2Isabelle
  imports Complex_Main
begin

section \<open>Python values and the valuation record\<close>

text \<open>
  The program threads one dictionary, \<^verbatim>\<open>PropertyValuationState\<close> (state.py), through
  five node functions (nodes.py, mock_nodes.py). The dictionary is embedded as a record
  with one field per key. Python floats are embedded as \<^typ>\<open>real\<close>: rounding is
  not part of the model.

  A key declared \<^verbatim>\<open>Optional[...]\<close> is read by the code with \<^verbatim>\<open>state.get(key)\<close> and
  \<^verbatim>\<open>state.get(key, default)\<close>, which tell a key that is not in the dictionary from a
  key that holds \<^verbatim>\<open>None\<close>; such a key is an \<open>entry\<close>, and so are the two address
  keys, which the constructors fill from \<^verbatim>\<open>request_data.get\<close>. The other keys are taken
  as present with a value of their declared type, as \<^verbatim>\<open>PropertyValuationState(...)\<close>
  builds them in a2a\_client.py and main.py.
\<close>

datatype 'a entry = Absent | PyNone | Val 'a

text \<open>\<^verbatim>\<open>d.get(k)\<close>: \<^verbatim>\<open>None\<close> for a missing key and for a stored \<^verbatim>\<open>None\<close>.\<close>

fun get :: "'a entry \<Rightarrow> 'a option" where
  "get Absent = None"
| "get PyNone = None"
| "get (Val v) = Some v"

text \<open>\<^verbatim>\<open>d.get(k, default)\<close>: the default only for a missing key; a stored \<^verbatim>\<open>None\<close> is returned.\<close>

fun get_default :: "'a entry \<Rightarrow> 'a \<Rightarrow> 'a option" where
  "get_default Absent d = Some d"
| "get_default PyNone d = None"
| "get_default (Val v) d = Some v"

text \<open>Python truth of \<^verbatim>\<open>d.get(k)\<close> for a number: \<^verbatim>\<open>None\<close>, \<^verbatim>\<open>0\<close> and \<^verbatim>\<open>0.0\<close> are false.\<close>

fun truthy_num :: "('a::zero) entry \<Rightarrow> bool" where
  "truthy_num (Val v) = (v \<noteq> 0)"
| "truthy_num _ = False"

text \<open>Python truth of \<^verbatim>\<open>d.get(k)\<close> for a string: \<^verbatim>\<open>None\<close> and the empty string are false.\<close>

fun truthy_str :: "string entry \<Rightarrow> bool" where
  "truthy_str (Val v) = (v \<noteq> [])"
| "truthy_str _ = False"

datatype error =
    TypeError string
  | KeyError string
  | OtherError string

text \<open>\<^verbatim>\<open>str(e)\<close>; a \<^verbatim>\<open>KeyError\<close> prints its key quoted.\<close>

fun error_str :: "error \<Rightarrow> string" where
  "error_str (TypeError m) = m"
| "error_str (KeyError k) = [CHR 0x27] @ k @ [CHR 0x27]"
| "error_str (OtherError m) = m"

record comparable =
  comp_address :: string
  comp_sold_price :: int
  comp_square_footage :: int
  comp_bedrooms :: int
  comp_bathrooms :: real
  comp_sale_date :: string
  comp_days_on_market :: int

record comparable_analysis_rec =
  number_of_comparables :: nat
  average_sale_price :: real
  price_per_square_foot :: real
  comparable_quality :: string
  price_range_low :: real
  price_range_high :: real

datatype direction = RISING | STABLE | DECLINING
datatype level = LOW | MODERATE | HIGH
datatype access = EXCELLENT | GOOD | FAIR

record market_trends_rec =
  market_direction :: direction
  price_change_6_months :: real
  average_days_on_market :: int
  inventory_level :: level
  buyer_demand :: level

record neighborhood_data_rec =
  school_rating :: int
  crime_rate :: level
  walkability_score :: int
  nearby_amenities :: "string list"
  transportation_access :: access

record adjustment_factors_rec =
  trend_adjustment :: int
  demand_adjustment :: int
  inventory_adjustment :: int
  neighborhood_adjustment :: int

record market_adjustment_rec =
  adjustment_factors :: adjustment_factors_rec
  total_adjustment_percent :: int
  market_confidence :: string

record valuation_range_rec =
  min_value :: real
  max_value :: real

record final_assessment_rec =
  fa_base_value :: real
  fa_market_adjustment_percent :: int
  fa_estimated_value :: real
  fa_confidence_score :: int
  fa_valuation_method :: string
  fa_key_value_drivers :: "string list"
  fa_limitations :: "string list"

record response_data_rec =
  rd_property_address :: "string option"
  rd_estimated_value :: real
  rd_valuation_range :: valuation_range_rec
  rd_confidence_level :: string
  rd_confidence_score :: int
  rd_valuation_date :: string
  rd_appraiser_notes :: string

text \<open>
  The dictionaries \<^verbatim>\<open>comparable_analysis\<close>, \<^verbatim>\<open>market_adjustment\<close>, \<^verbatim>\<open>market_trends\<close>,
  \<^verbatim>\<open>neighborhood_data\<close> and \<^verbatim>\<open>final_assessment\<close> start as \<^verbatim>\<open>{}\<close> (\<open>None\<close> here) and are
  replaced as a whole by the node that owns them (\<open>Some\<close> of its dictionary literal).

  \<open>confidence_score\<close> is not a key of the \<^verbatim>\<open>TypedDict\<close>; it is the key that
  \<^verbatim>\<open>create_safe_response\<close> reads with \<^verbatim>\<open>state.get('confidence_score', 0)\<close>
  (error\_handling.py).
\<close>

record PropertyValuationState =
  property_address :: "string entry"
  property_type :: "string entry"
  square_footage :: "int entry"
  bedrooms :: "int entry"
  bathrooms :: "real entry"
  year_built :: "int entry"
  lot_size :: "real entry"
  comparable_properties :: "comparable list"
  market_trends :: "market_trends_rec option"
  neighborhood_data :: "neighborhood_data_rec option"
  estimated_value :: "real entry"
  confidence_level :: "string entry"
  valuation_range :: "valuation_range_rec entry"
  comparable_analysis :: "comparable_analysis_rec option"
  market_adjustment :: "market_adjustment_rec option"
  final_assessment :: "final_assessment_rec option"
  current_step :: string
  errors :: "string list"
  warnings :: "string list"
  request_id :: "string entry"
  requesting_agent :: "string entry"
  response_data :: "response_data_rec entry"
  confidence_score :: "int entry"

section \<open>Formatting\<close>

text \<open>\<^verbatim>\<open>str(n)\<close> for a natural number.\<close>

fun digit_char :: "nat \<Rightarrow> char" where
  "digit_char n = char_of (48 + n)"

function str_nat :: "nat \<Rightarrow> string" where
  "str_nat n = (if n < 10 then [digit_char n] else str_nat (n div 10) @ [digit_char (n mod 10)])"
  by pat_completeness auto
termination
  by (relation "measure id") auto

text \<open>\<^verbatim>\<open>f"{n:+.1f}"\<close> for an integer \<open>n\<close>: sign, digits, one decimal.\<close>

definition fmt_plus_1f :: "int \<Rightarrow> string" where
  "fmt_plus_1f n = (if n < 0 then ''-'' else ''+'') @ str_nat (nat \<bar>n\<bar>) @ ''.0''"

text \<open>\<^verbatim>\<open>repr\<close> of a list of (quote-free) strings, as an f-string prints \<^verbatim>\<open>{missing_fields}\<close>.\<close>

fun join_comma :: "string list \<Rightarrow> string" where
  "join_comma [] = []"
| "join_comma [x] = x"
| "join_comma (x # y # ys) = x @ '', '' @ join_comma (y # ys)"

definition repr_str_list :: "string list \<Rightarrow> string" where
  "repr_str_list xs = ''['' @ join_comma (map (\<lambda>x. [CHR 0x27] @ x @ [CHR 0x27]) xs) @ '']''"

section \<open>Node 1: data collection (DataIntake)\<close>

text \<open>
  The loop \<^verbatim>\<open>for field in required_fields: if not state.get(field): missing_fields.append(field)\<close>
  over \<^verbatim>\<open>['square_footage', 'bedrooms', 'bathrooms', 'year_built']\<close>.
\<close>

definition missing_fields :: "PropertyValuationState \<Rightarrow> string list" where
  "missing_fields s =
     (if \<not> truthy_num (square_footage s) then [''square_footage''] else []) @
     (if \<not> truthy_num (bedrooms s) then [''bedrooms''] else []) @
     (if \<not> truthy_num (bathrooms s) then [''bathrooms''] else []) @
     (if \<not> truthy_num (year_built s) then [''year_built''] else [])"

definition data_quality_score :: "PropertyValuationState \<Rightarrow> int" where
  "data_quality_score s = max 0 (100 - int (length (missing_fields s)) * 20)"

definition data_completeness :: "PropertyValuationState \<Rightarrow> string" where
  "data_completeness s =
     (if length (missing_fields s) = 0 then ''COMPLETE''
      else if length (missing_fields s) \<le> 2 then ''PARTIAL''
      else ''INCOMPLETE'')"

text \<open>
  mock\_nodes.py. \<open>current_step\<close> is written first, then one message is appended to
  \<open>errors\<close> (INCOMPLETE) or to \<open>warnings\<close> (PARTIAL). \<open>data_quality_score\<close> is computed
  and not stored.
\<close>

definition mock_property_data_collection_node :: "PropertyValuationState \<Rightarrow> PropertyValuationState" where
  "mock_property_data_collection_node s =
     (let s1 = s\<lparr>current_step := ''property_data_collected''\<rparr> in
      if data_completeness s = ''INCOMPLETE'' then
        s1\<lparr>errors := errors s1 @
              [''Insufficient property data: missing '' @ repr_str_list (missing_fields s)]\<rparr>
      else if data_completeness s = ''PARTIAL'' then
        s1\<lparr>warnings := warnings s1 @
              [''Some property data missing: '' @ repr_str_list (missing_fields s)]\<rparr>
      else s1)"

text \<open>
  nodes.py builds a prompt, which reads \<^verbatim>\<open>state['property_address']\<close> and
  \<^verbatim>\<open>state['property_type']\<close> (\<^verbatim>\<open>KeyError\<close> for a missing key), calls
  \<^verbatim>\<open>llm.invoke(prompt)\<close>, whose response is not read, and runs the same validation. The
  call is outside the program: \<open>llm\<close> is the exception it raises, if any. The guards
  \<^verbatim>\<open>if 'errors' not in state\<close> are not taken, the lists being present.
\<close>

definition property_data_collection_node ::
  "error option \<Rightarrow> PropertyValuationState \<Rightarrow> error + PropertyValuationState" where
  "property_data_collection_node llm s =
     (if property_address s = Absent then Inl (KeyError ''property_address'')
      else if property_type s = Absent then Inl (KeyError ''property_type'')
      else case llm of
        Some e \<Rightarrow> Inl e
      | None \<Rightarrow> Inr (mock_property_data_collection_node s))"

section \<open>Node 2: comparable properties (ComparablesAnalysis)\<close>

text \<open>
  The values that \<^verbatim>\<open>random.randint\<close> returns are inputs of the model; \<open>comparable_draws_ok\<close>
  gives the bounds passed to each call.
\<close>

record comparable_draws =
  price1 :: int
  sqft1 :: int
  dom1 :: int
  price2 :: int
  sqft2 :: int
  beds2 :: int
  dom2 :: int
  price3 :: int
  sqft3 :: int
  dom3 :: int

definition comparable_draws_ok :: "comparable_draws \<Rightarrow> bool" where
  "comparable_draws_ok d \<longleftrightarrow>
     - 50000 \<le> price1 d \<and> price1 d \<le> 50000 \<and> - 200 \<le> sqft1 d \<and> sqft1 d \<le> 200 \<and>
     15 \<le> dom1 d \<and> dom1 d \<le> 60 \<and>
     - 50000 \<le> price2 d \<and> price2 d \<le> 50000 \<and> - 300 \<le> sqft2 d \<and> sqft2 d \<le> 300 \<and>
     - 1 \<le> beds2 d \<and> beds2 d \<le> 1 \<and> 10 \<le> dom2 d \<and> dom2 d \<le> 45 \<and>
     - 40000 \<le> price3 d \<and> price3 d \<le> 40000 \<and> - 250 \<le> sqft3 d \<and> sqft3 d \<le> 250 \<and>
     20 \<le> dom3 d \<and> dom3 d \<le> 80"

text \<open>The list literal, once the three \<^verbatim>\<open>state.get(key, default)\<close> reads gave numbers.\<close>

definition make_comparables :: "comparable_draws \<Rightarrow> int \<Rightarrow> int \<Rightarrow> real \<Rightarrow> comparable list" where
  "make_comparables d base_sqft beds baths =
     [\<lparr>comp_address = ''123 Similar St, Same City'',
       comp_sold_price = 450000 + price1 d,
       comp_square_footage = base_sqft + sqft1 d,
       comp_bedrooms = beds,
       comp_bathrooms = baths,
       comp_sale_date = ''2024-10-15'',
       comp_days_on_market = dom1 d\<rparr>,
      \<lparr>comp_address = ''456 Nearby Ave, Same City'',
       comp_sold_price = 475000 + price2 d,
       comp_square_footage = base_sqft + sqft2 d,
       comp_bedrooms = beds + beds2 d,
       comp_bathrooms = baths,
       comp_sale_date = ''2024-11-02'',
       comp_days_on_market = dom2 d\<rparr>,
      \<lparr>comp_address = ''789 Close Blvd, Same City'',
       comp_sold_price = 435000 + price3 d,
       comp_square_footage = base_sqft + sqft3 d,
       comp_bedrooms = beds,
       comp_bathrooms = baths + 0.5,
       comp_sale_date = ''2024-09-28'',
       comp_days_on_market = dom3 d\<rparr>]"

definition avg_price :: "comparable list \<Rightarrow> real" where
  "avg_price comps = real_of_int (sum_list (map comp_sold_price comps)) / real (length comps)"

text \<open>
  \<^verbatim>\<open>if state.get('square_footage'): avg_price / state['square_footage']
  else: avg_price / 2000\<close>
\<close>

definition avg_price_per_sqft :: "PropertyValuationState \<Rightarrow> real \<Rightarrow> real" where
  "avg_price_per_sqft s avg =
     (case square_footage s of
        Val v \<Rightarrow> if v \<noteq> 0 then avg / real_of_int v else avg / 2000
      | _ \<Rightarrow> avg / 2000)"

definition analyse_comparables :: "PropertyValuationState \<Rightarrow> comparable list \<Rightarrow> comparable_analysis_rec" where
  "analyse_comparables s comps =
     \<lparr>number_of_comparables = length comps,
      average_sale_price = avg_price comps,
      price_per_square_foot = avg_price_per_sqft s (avg_price comps),
      comparable_quality = ''GOOD'',
      price_range_low = avg_price comps * (9 / 10),
      price_range_high = avg_price comps * (11 / 10)\<rparr>"

definition none_plus_int :: string where
  "none_plus_int = ''unsupported operand type(s) for +: '' @ [CHR 0x27] @ ''NoneType'' @
     [CHR 0x27] @ '' and '' @ [CHR 0x27] @ ''int'' @ [CHR 0x27]"

definition none_plus_float :: string where
  "none_plus_float = ''unsupported operand type(s) for +: '' @ [CHR 0x27] @ ''NoneType'' @
     [CHR 0x27] @ '' and '' @ [CHR 0x27] @ ''float'' @ [CHR 0x27]"

text \<open>
  The list literal is evaluated in order: \<^verbatim>\<open>base_sqft + random.randint(-200, 200)\<close> in the
  first dictionary, \<^verbatim>\<open>state.get('bedrooms', 3) + random.randint(-1, 1)\<close> in the second,
  \<^verbatim>\<open>state.get('bathrooms', 2) + 0.5\<close> in the third. Each raises \<^verbatim>\<open>TypeError\<close> when the
  key holds \<^verbatim>\<open>None\<close>.
\<close>

definition mock_comparable_properties_node ::
  "comparable_draws \<Rightarrow> PropertyValuationState \<Rightarrow> error + PropertyValuationState" where
  "mock_comparable_properties_node d s =
     (case get_default (square_footage s) 2000 of
        None \<Rightarrow> Inl (TypeError none_plus_int)
      | Some base_sqft \<Rightarrow>
     (case get_default (bedrooms s) 3 of
        None \<Rightarrow> Inl (TypeError none_plus_int)
      | Some beds \<Rightarrow>
     (case get_default (bathrooms s) 2 of
        None \<Rightarrow> Inl (TypeError none_plus_float)
      | Some baths \<Rightarrow>
          (let comps = make_comparables d base_sqft beds baths in
           Inr (s\<lparr>comparable_properties := comps,
                  comparable_analysis := Some (analyse_comparables s comps),
                  current_step := ''comparables_analyzed''\<rparr>)))))"

text \<open>
  nodes.py: the list is built first, then the prompt (which reads \<^verbatim>\<open>state['property_type']\<close>),
  then \<^verbatim>\<open>llm.invoke(prompt)\<close>, then the same analysis, which cannot raise.
\<close>

definition comparable_properties_node ::
  "error option \<Rightarrow> comparable_draws \<Rightarrow> PropertyValuationState \<Rightarrow> error + PropertyValuationState" where
  "comparable_properties_node llm d s =
     (case mock_comparable_properties_node d s of
        Inl e \<Rightarrow> Inl e
      | Inr s' \<Rightarrow>
          if property_type s = Absent then Inl (KeyError ''property_type'')
          else (case llm of Some e \<Rightarrow> Inl e | None \<Rightarrow> Inr s'))"

section \<open>Node 3: market analysis\<close>

record market_draws =
  draw_market_direction :: direction
  draw_price_change_6_months :: real
  draw_average_days_on_market :: int
  draw_inventory_level :: level
  draw_buyer_demand :: level
  draw_school_rating :: int
  draw_crime_rate :: level
  draw_walkability_score :: int
  draw_transportation_access :: access

definition make_market_trends :: "market_draws \<Rightarrow> market_trends_rec" where
  "make_market_trends d =
     \<lparr>market_direction = draw_market_direction d,
      price_change_6_months = draw_price_change_6_months d,
      average_days_on_market = draw_average_days_on_market d,
      inventory_level = draw_inventory_level d,
      buyer_demand = draw_buyer_demand d\<rparr>"

definition make_neighborhood_data :: "market_draws \<Rightarrow> neighborhood_data_rec" where
  "make_neighborhood_data d =
     \<lparr>school_rating = draw_school_rating d,
      crime_rate = draw_crime_rate d,
      walkability_score = draw_walkability_score d,
      nearby_amenities = [''shopping'', ''parks'', ''restaurants''],
      transportation_access = draw_transportation_access d\<rparr>"

definition market_adjustment_factors ::
  "market_trends_rec \<Rightarrow> neighborhood_data_rec \<Rightarrow> adjustment_factors_rec" where
  "market_adjustment_factors mt nd =
     \<lparr>trend_adjustment =
        (if market_direction mt = RISING then 2
         else if market_direction mt = DECLINING then - 2 else 0),
      demand_adjustment =
        (if buyer_demand mt = HIGH then 3 else if buyer_demand mt = LOW then - 3 else 0),
      inventory_adjustment =
        (if inventory_level mt = HIGH then - 2 else if inventory_level mt = LOW then 2 else 0),
      neighborhood_adjustment =
        (if school_rating nd \<ge> 9 then 5 else if school_rating nd \<ge> 7 then 2 else - 2)\<rparr>"

text \<open>\<^verbatim>\<open>sum(market_adjustment_factors.values())\<close>\<close>

definition total_market_adjustment :: "adjustment_factors_rec \<Rightarrow> int" where
  "total_market_adjustment f =
     trend_adjustment f + demand_adjustment f + inventory_adjustment f + neighborhood_adjustment f"

definition make_market_adjustment :: "adjustment_factors_rec \<Rightarrow> market_adjustment_rec" where
  "make_market_adjustment f =
     \<lparr>adjustment_factors = f,
      total_adjustment_percent = max (- 20) (min 20 (total_market_adjustment f)),
      market_confidence =
        (if \<bar>total_market_adjustment f\<bar> \<le> 5 then ''HIGH''
         else if \<bar>total_market_adjustment f\<bar> \<le> 10 then ''MEDIUM'' else ''LOW'')\<rparr>"

definition mock_market_analysis_node ::
  "market_draws \<Rightarrow> PropertyValuationState \<Rightarrow> PropertyValuationState" where
  "mock_market_analysis_node d s =
     s\<lparr>market_trends := Some (make_market_trends d),
       neighborhood_data := Some (make_neighborhood_data d),
       market_adjustment := Some (make_market_adjustment
          (market_adjustment_factors (make_market_trends d) (make_neighborhood_data d))),
       current_step := ''market_analyzed''\<rparr>"

text \<open>
  nodes.py: the prompt reads \<^verbatim>\<open>state['property_address']\<close>, which raises \<^verbatim>\<open>KeyError\<close> when
  the key is missing; then \<^verbatim>\<open>llm.invoke(prompt)\<close>; then the same computation.
\<close>

definition market_analysis_node ::
  "error option \<Rightarrow> market_draws \<Rightarrow> PropertyValuationState \<Rightarrow> error + PropertyValuationState" where
  "market_analysis_node llm d s =
     (if property_address s = Absent then Inl (KeyError ''property_address'')
      else case llm of
        Some e \<Rightarrow> Inl e
      | None \<Rightarrow> Inr (mock_market_analysis_node d s))"

section \<open>Node 4: final valuation\<close>

text \<open>The list \<^verbatim>\<open>data_quality_factors\<close>, one entry per flag raised.\<close>

definition data_quality_factors :: "PropertyValuationState \<Rightarrow> int \<Rightarrow> string list" where
  "data_quality_factors s market_adjustment_percent =
     (if \<not> truthy_num (square_footage s) then [''Missing square footage''] else []) @
     (if length (comparable_properties s) < 3 then [''Limited comparables''] else []) @
     (if \<bar>market_adjustment_percent\<bar> > 10 then [''High market volatility''] else [])"

definition confidence_level_of :: "string list \<Rightarrow> string" where
  "confidence_level_of factors =
     (if length factors = 0 then ''HIGH'' else if length factors \<le> 1 then ''MEDIUM'' else ''LOW'')"

definition confidence_score_of :: "string list \<Rightarrow> int" where
  "confidence_score_of factors =
     (if length factors = 0 then 85 else if length factors \<le> 1 then 70 else 55)"

definition range_factor :: "string \<Rightarrow> real" where
  "range_factor level =
     (if level = ''HIGH'' then 5 / 100 else if level = ''MEDIUM'' then 10 / 100 else 15 / 100)"

definition make_valuation_range :: "real \<Rightarrow> string \<Rightarrow> valuation_range_rec" where
  "make_valuation_range market_adjusted_value level =
     \<lparr>min_value = market_adjusted_value * (1 - range_factor level),
      max_value = market_adjusted_value * (1 + range_factor level)\<rparr>"

text \<open>
  The body of the node after its three subscript reads succeeded: \<open>base_value\<close> and
  \<open>pct\<close> are \<^verbatim>\<open>state['comparable_analysis']['average_sale_price']\<close> and
  \<^verbatim>\<open>state['market_adjustment']['total_adjustment_percent']\<close>, \<open>addr\<close> is
  \<^verbatim>\<open>state['property_address']\<close>. \<open>notes_head\<close> is the only text in which the two
  variants differ (\<^verbatim>\<open>"Mock valuation"\<close>, \<^verbatim>\<open>"Valuation"\<close>).
\<close>

definition write_valuation ::
  "string \<Rightarrow> real \<Rightarrow> int \<Rightarrow> string option \<Rightarrow> PropertyValuationState \<Rightarrow> PropertyValuationState" where
  "write_valuation notes_head base_value pct addr s =
     (let market_adjusted_value = base_value * (1 + real_of_int pct / 100);
          factors = data_quality_factors s pct;
          level = confidence_level_of factors;
          score = confidence_score_of factors;
          range = make_valuation_range market_adjusted_value level
      in s\<lparr>estimated_value := Val market_adjusted_value,
            confidence_level := Val level,
            valuation_range := Val range,
            final_assessment := Some
              \<lparr>fa_base_value = base_value,
               fa_market_adjustment_percent = pct,
               fa_estimated_value = market_adjusted_value,
               fa_confidence_score = score,
               fa_valuation_method = ''SALES_COMPARISON_APPROACH'',
               fa_key_value_drivers = [''Comparable sales analysis'',
                  ''Current market conditions'', ''Neighborhood characteristics''],
               fa_limitations = factors\<rparr>,
            response_data := Val
              \<lparr>rd_property_address = addr,
               rd_estimated_value = market_adjusted_value,
               rd_valuation_range = range,
               rd_confidence_level = level,
               rd_confidence_score = score,
               rd_valuation_date = ''2024-12-15'',
               rd_appraiser_notes = notes_head @ '' based on '' @
                  str_nat (length (comparable_properties s)) @ '' comparable sales with '' @
                  fmt_plus_1f pct @ ''% market adjustment''\<rparr>,
            current_step := ''valuation_completed''\<rparr>)"

definition mock_final_valuation_node ::
  "PropertyValuationState \<Rightarrow> error + PropertyValuationState" where
  "mock_final_valuation_node s =
     (case comparable_analysis s of
        None \<Rightarrow> Inl (KeyError ''average_sale_price'')
      | Some ca \<Rightarrow>
     (case market_adjustment s of
        None \<Rightarrow> Inl (KeyError ''total_adjustment_percent'')
      | Some ma \<Rightarrow>
          if property_address s = Absent then Inl (KeyError ''property_address'')
          else Inr (write_valuation ''Mock valuation'' (average_sale_price ca)
                      (total_adjustment_percent ma) (get (property_address s)) s)))"

text \<open>nodes.py: the prompt and \<^verbatim>\<open>llm.invoke(prompt)\<close> come before the state is written.\<close>

definition final_valuation_node ::
  "error option \<Rightarrow> PropertyValuationState \<Rightarrow> error + PropertyValuationState" where
  "final_valuation_node llm s =
     (case comparable_analysis s of
        None \<Rightarrow> Inl (KeyError ''average_sale_price'')
      | Some ca \<Rightarrow>
     (case market_adjustment s of
        None \<Rightarrow> Inl (KeyError ''total_adjustment_percent'')
      | Some ma \<Rightarrow>
          if property_address s = Absent then Inl (KeyError ''property_address'')
          else (case llm of
             Some e \<Rightarrow> Inl e
           | None \<Rightarrow> Inr (write_valuation ''Valuation'' (average_sale_price ca)
                      (total_adjustment_percent ma) (get (property_address s)) s))))"

section \<open>Node 5: agent-to-agent communication (ResponseDispatch)\<close>

text \<open>
  \<^verbatim>\<open>state.get('response_data')\<close> is true for the dictionary that node 4 stores (it has
  seven keys) and false for \<^verbatim>\<open>None\<close> and for a missing key.
\<close>

fun truthy_dict :: "response_data_rec entry \<Rightarrow> bool" where
  "truthy_dict (Val v) = True"
| "truthy_dict _ = False"

text \<open>The text that an f-string prints for \<^verbatim>\<open>state.get('request_id', 'N/A')\<close>.\<close>

fun request_id_text :: "string entry \<Rightarrow> string" where
  "request_id_text Absent = ''N/A''"
| "request_id_text PyNone = ''None''"
| "request_id_text (Val r) = r"

definition dispatch_warning :: "string \<Rightarrow> PropertyValuationState \<Rightarrow> string" where
  "dispatch_warning head s =
     head @ '' sent to '' @ (case requesting_agent s of Val a \<Rightarrow> a | _ \<Rightarrow> ''None'') @
     '' for request '' @ request_id_text (request_id s)"

text \<open>
  mock\_nodes.py formats a summary text in the first branch and drops it. The text reads
  \<^verbatim>\<open>state['property_address']\<close>, which raises \<^verbatim>\<open>KeyError\<close> when the key is missing; its
  other reads are of \<^verbatim>\<open>state['requesting_agent']\<close>, which the test has found, and of keys
  of the response payload, which node 4 always writes. The guard
  \<^verbatim>\<open>if 'warnings' not in state\<close> is not taken.
\<close>

definition mock_a2a_communication_node ::
  "PropertyValuationState \<Rightarrow> error + PropertyValuationState" where
  "mock_a2a_communication_node s =
     (if truthy_str (requesting_agent s) \<and> truthy_dict (response_data s) then
        if property_address s = Absent then Inl (KeyError ''property_address'')
        else Inr (s\<lparr>current_step := ''a2a_response_sent'',
                   warnings := warnings s @ [dispatch_warning ''Mock response'' s]\<rparr>)
      else Inr (s\<lparr>current_step := ''valuation_ready_for_use''\<rparr>))"

text \<open>
  nodes.py: the prompt reads \<^verbatim>\<open>state['requesting_agent']\<close> and \<^verbatim>\<open>state['response_data']\<close>
  only, then \<^verbatim>\<open>llm.invoke(prompt)\<close>, in the first branch; the second branch makes no
  call.
\<close>

definition a2a_communication_node ::
  "error option \<Rightarrow> PropertyValuationState \<Rightarrow> error + PropertyValuationState" where
  "a2a_communication_node llm s =
     (if truthy_str (requesting_agent s) \<and> truthy_dict (response_data s) then
        (case llm of
           Some e \<Rightarrow> Inl e
         | None \<Rightarrow> Inr (s\<lparr>current_step := ''a2a_response_sent'',
                          warnings := warnings s @ [dispatch_warning ''Response'' s]\<rparr>))
      else Inr (s\<lparr>current_step := ''valuation_ready_for_use''\<rparr>))"

section \<open>The workflow graphs of mock\_graph.py\<close>

datatype node = DataCollection | ComparablesNode | MarketAnalysis | FinalValuation | A2ACommunication

record draws =
  comparable_draw :: comparable_draws
  market_draw :: market_draws

text \<open>The function registered under each name by \<^verbatim>\<open>workflow.add_node\<close>.\<close>

fun run_node :: "draws \<Rightarrow> node \<Rightarrow> PropertyValuationState \<Rightarrow> error + PropertyValuationState" where
  "run_node d DataCollection s = Inr (mock_property_data_collection_node s)"
| "run_node d ComparablesNode s = mock_comparable_properties_node (comparable_draw d) s"
| "run_node d MarketAnalysis s = Inr (mock_market_analysis_node (market_draw d) s)"
| "run_node d FinalValuation s = mock_final_valuation_node s"
| "run_node d A2ACommunication s = mock_a2a_communication_node s"

definition should_continue_after_data_collection :: "PropertyValuationState \<Rightarrow> node" where
  "should_continue_after_data_collection s =
     (if length (errors s) > 0 then A2ACommunication else ComparablesNode)"

text \<open>
  This router reads \<^verbatim>\<open>state['comparable_analysis']['comparable_quality']\<close> and appends a
  warning to the state it is given before it answers.
\<close>

definition should_continue_after_comparables ::
  "PropertyValuationState \<Rightarrow> error + node \<times> PropertyValuationState" where
  "should_continue_after_comparables s =
     (case comparable_analysis s of
        None \<Rightarrow> Inl (KeyError ''comparable_quality'')
      | Some ca \<Rightarrow>
          if comparable_quality ca = ''POOR''
          then Inr (MarketAnalysis,
                    s\<lparr>warnings := warnings s @ [''Limited comparable data available'']\<rparr>)
          else Inr (MarketAnalysis, s))"

datatype policy = Linear | Conditional

text \<open>
  The edges: \<open>None\<close> is \<^verbatim>\<open>END\<close>. \<open>Linear\<close> is \<^verbatim>\<open>create_mock_property_valuation_workflow\<close>,
  \<open>Conditional\<close> is \<^verbatim>\<open>create_mock_conditional_property_valuation_workflow\<close>.
\<close>

fun route ::
  "policy \<Rightarrow> node \<Rightarrow> PropertyValuationState \<Rightarrow> error + node option \<times> PropertyValuationState" where
  "route Linear DataCollection s = Inr (Some ComparablesNode, s)"
| "route Linear ComparablesNode s = Inr (Some MarketAnalysis, s)"
| "route Conditional DataCollection s = Inr (Some (should_continue_after_data_collection s), s)"
| "route Conditional ComparablesNode s =
     (case should_continue_after_comparables s of
        Inl e \<Rightarrow> Inl e
      | Inr (n, s') \<Rightarrow> Inr (Some n, s'))"
| "route p MarketAnalysis s = Inr (Some FinalValuation, s)"
| "route p FinalValuation s = Inr (Some A2ACommunication, s)"
| "route p A2ACommunication s = Inr (None, s)"

text \<open>How many nodes lie after a node in the order in which the graphs list them.\<close>

fun nodes_after :: "node \<Rightarrow> nat" where
  "nodes_after DataCollection = 4"
| "nodes_after ComparablesNode = 3"
| "nodes_after MarketAnalysis = 2"
| "nodes_after FinalValuation = 1"
| "nodes_after A2ACommunication = 0"

text \<open>
  Running the compiled graph from a node: the node's function, then the edge. An exception
  ends the run. The result carries the list of the nodes that ran, in order, which the
  program does not store. Every edge of both graphs leads forward (\<open>route_forward\<close> below),
  so the last branch is never taken; it makes the recursion well-founded by itself.
\<close>

function run_from ::
  "policy \<Rightarrow> draws \<Rightarrow> node \<Rightarrow> PropertyValuationState \<Rightarrow> error + node list \<times> PropertyValuationState" where
  "run_from p d n s =
     (case run_node d n s of
        Inl e \<Rightarrow> Inl e
      | Inr s1 \<Rightarrow>
          (case route p n s1 of
             Inl e \<Rightarrow> Inl e
           | Inr (None, s2) \<Rightarrow> Inr ([n], s2)
           | Inr (Some n', s2) \<Rightarrow>
               if nodes_after n' < nodes_after n then
                 (case run_from p d n' s2 of
                    Inl e \<Rightarrow> Inl e
                  | Inr (tr, s3) \<Rightarrow> Inr (n # tr, s3))
               else Inl (OtherError ''backward edge'')))"
  by pat_completeness auto
termination
  by (relation "measure (\<lambda>(p, d, n, s). nodes_after n)") auto

text \<open>\<^verbatim>\<open>workflow.invoke(initial_state)\<close>: the run from the entry point, giving the final state.\<close>

definition invoke :: "policy \<Rightarrow> draws \<Rightarrow> PropertyValuationState \<Rightarrow> error + PropertyValuationState" where
  "invoke p d s =
     (case run_from p d DataCollection s of
        Inl e \<Rightarrow> Inl e
      | Inr (tr, s') \<Rightarrow> Inr s')"

section \<open>Envelopes (a2a\_client.py, error\_handling.py)\<close>

text \<open>
  An envelope is a \<^verbatim>\<open>Dict[str, Any]\<close>: a list of key-value pairs without repeated keys,
  read with \<open>map_of\<close>, over the values that occur in envelopes.
\<close>

datatype pyval =
    PyNull
  | PyBool bool
  | PyInt int
  | PyFloat real
  | PyStr string
  | PyList "pyval list"
  | PyDict "(string \<times> pyval) list"

type_synonym pydict = "(string \<times> pyval) list"

definition has_key :: "pydict \<Rightarrow> string \<Rightarrow> bool" where
  "has_key r k \<longleftrightarrow> map_of r k \<noteq> None"

fun is_prefix :: "'a list \<Rightarrow> 'a list \<Rightarrow> bool" where
  "is_prefix [] ys = True"
| "is_prefix (x # xs) [] = False"
| "is_prefix (x # xs) (y # ys) = (x = y \<and> is_prefix xs ys)"

fun substring :: "'a list \<Rightarrow> 'a list \<Rightarrow> bool" where
  "substring xs [] = (xs = [])"
| "substring xs (y # ys) = (is_prefix xs (y # ys) \<or> substring xs ys)"

definition not_iterable :: "string \<Rightarrow> error" where
  "not_iterable ty =
     TypeError (''argument of type '' @ [CHR 0x27] @ ty @ [CHR 0x27] @ '' is not iterable'')"

text \<open>
  \<^verbatim>\<open>field in data\<close> for a string \<open>field\<close>: a key of a dictionary, an element of a list,
  a substring of a string, and \<^verbatim>\<open>TypeError\<close> for the values that are not containers.
\<close>

fun py_in :: "string \<Rightarrow> pyval \<Rightarrow> error + bool" where
  "py_in f (PyDict kvs) = Inr (map_of kvs f \<noteq> None)"
| "py_in f (PyList xs) = Inr (PyStr f \<in> set xs)"
| "py_in f (PyStr s) = Inr (substring f s)"
| "py_in f PyNull = Inl (not_iterable ''NoneType'')"
| "py_in f (PyBool b) = Inl (not_iterable ''bool'')"
| "py_in f (PyInt i) = Inl (not_iterable ''int'')"
| "py_in f (PyFloat x) = Inl (not_iterable ''float'')"

text \<open>\<^verbatim>\<open>all(field in data for field in fields)\<close>: stops at the first false membership.\<close>

fun all_in :: "string list \<Rightarrow> pyval \<Rightarrow> error + bool" where
  "all_in [] data = Inr True"
| "all_in (f # fs) data =
     (case py_in f data of
        Inl e \<Rightarrow> Inl e
      | Inr b \<Rightarrow> if b then all_in fs data else Inr False)"

definition required_fields :: "string list" where
  "required_fields = [''status'', ''request_id'', ''agent'']"

definition required_data_fields :: "string list" where
  "required_data_fields = [''estimated_value'', ''confidence_level'', ''valuation_range'']"

text \<open>
  On the \<^verbatim>\<open>SUCCESS\<close> path the two \<^verbatim>\<open>all(...)\<close> are joined by \<^verbatim>\<open>and\<close>: the second is
  evaluated only when the first is true.
\<close>

definition validate_a2a_response :: "pydict \<Rightarrow> error + bool" where
  "validate_a2a_response response =
     (if map_of response ''status'' = Some (PyStr ''SUCCESS'') then
        (let data = (case map_of response ''data'' of None \<Rightarrow> PyDict [] | Some v \<Rightarrow> v) in
         if list_all (has_key response) required_fields
         then all_in required_data_fields data
         else Inr False)
      else Inr (list_all (has_key response) required_fields))"

text \<open>The dictionaries that node 4 stores, with the keys of its literals.\<close>

definition valuation_range_dict :: "valuation_range_rec \<Rightarrow> pyval" where
  "valuation_range_dict r =
     PyDict [(''min_value'', PyFloat (min_value r)), (''max_value'', PyFloat (max_value r))]"

definition response_data_dict :: "response_data_rec \<Rightarrow> pyval" where
  "response_data_dict rd =
     PyDict
      [(''property_address'',
          (case rd_property_address rd of None \<Rightarrow> PyNull | Some a \<Rightarrow> PyStr a)),
       (''estimated_value'', PyFloat (rd_estimated_value rd)),
       (''valuation_range'', valuation_range_dict (rd_valuation_range rd)),
       (''confidence_level'', PyStr (rd_confidence_level rd)),
       (''confidence_score'', PyInt (rd_confidence_score rd)),
       (''valuation_date'', PyStr (rd_valuation_date rd)),
       (''appraiser_notes'', PyStr (rd_appraiser_notes rd))]"

text \<open>\<^verbatim>\<open>state.get(key, default)\<close> as a value of an envelope.\<close>

fun get_value :: "'a entry \<Rightarrow> ('a \<Rightarrow> pyval) \<Rightarrow> pyval \<Rightarrow> pyval" where
  "get_value Absent f d = d"
| "get_value PyNone f d = PyNull"
| "get_value (Val v) f d = f v"

text \<open>
  The request: the keys of \<^verbatim>\<open>request_data\<close> that \<^verbatim>\<open>process_valuation_request\<close> reads.
\<close>

record request_data_rec =
  req_property_address :: "string entry"
  req_property_type :: "string entry"
  req_square_footage :: "int entry"
  req_bedrooms :: "int entry"
  req_bathrooms :: "real entry"
  req_year_built :: "int entry"
  req_lot_size :: "real entry"

text \<open>A keyword argument of \<^verbatim>\<open>PropertyValuationState(...)\<close>: the key is stored, \<^verbatim>\<open>None\<close> included.\<close>

fun stored :: "'a option \<Rightarrow> 'a entry" where
  "stored None = PyNone"
| "stored (Some v) = Val v"

text \<open>
  The state that a2a\_client.py (with a request id and a requesting agent) and main.py
  (both \<^verbatim>\<open>None\<close>) build. No \<open>confidence_score\<close> key is passed.
\<close>

definition initial_state ::
  "string option \<Rightarrow> string option \<Rightarrow> request_data_rec \<Rightarrow> PropertyValuationState" where
  "initial_state rid agent request_data =
     \<lparr>property_address = stored (get_default (req_property_address request_data) []),
      property_type = stored (get_default (req_property_type request_data) ''single_family''),
      square_footage = stored (get (req_square_footage request_data)),
      bedrooms = stored (get (req_bedrooms request_data)),
      bathrooms = stored (get (req_bathrooms request_data)),
      year_built = stored (get (req_year_built request_data)),
      lot_size = stored (get (req_lot_size request_data)),
      comparable_properties = [],
      market_trends = None,
      neighborhood_data = None,
      estimated_value = PyNone,
      confidence_level = PyNone,
      valuation_range = PyNone,
      comparable_analysis = None,
      market_adjustment = None,
      final_assessment = None,
      current_step = ''initialized'',
      errors = [],
      warnings = [],
      request_id = stored rid,
      requesting_agent = stored agent,
      response_data = PyNone,
      confidence_score = Absent\<rparr>"

text \<open>
  \<open>workflow\<close> and \<open>agent_name\<close> are the fields of the client; \<open>rid\<close> is the text of the
  \<^verbatim>\<open>uuid.uuid4()\<close> drawn by the call. \<^verbatim>\<open>except Exception\<close> turns every exception of
  the workflow into the second envelope.
\<close>

definition process_valuation_request ::
  "(PropertyValuationState \<Rightarrow> error + PropertyValuationState) \<Rightarrow> string \<Rightarrow> string \<Rightarrow>
     request_data_rec \<Rightarrow> string \<Rightarrow> pydict" where
  "process_valuation_request workflow agent_name rid request_data agent =
     (case workflow (initial_state (Some rid) (Some agent) request_data) of
        Inr result \<Rightarrow>
          [(''status'', PyStr ''SUCCESS''),
           (''request_id'', PyStr rid),
           (''agent'', PyStr agent_name),
           (''data'', get_value (response_data result) response_data_dict (PyDict [])),
           (''errors'', PyList (map PyStr (errors result))),
           (''warnings'', PyList (map PyStr (warnings result)))]
      | Inl e \<Rightarrow>
          [(''status'', PyStr ''ERROR''),
           (''request_id'', PyStr rid),
           (''agent'', PyStr agent_name),
           (''error_message'', PyStr (error_str e)),
           (''data'', PyNull)])"

text \<open>
  error\_handling.py. The partial results are copied when \<^verbatim>\<open>state.get('estimated_value')\<close>
  is true, and the status tests the copied value in the same way.
\<close>

definition safe_response_data :: "PropertyValuationState \<Rightarrow> pydict" where
  "safe_response_data s =
     [(''property_address'', get_value (property_address s) PyStr (PyStr ''Unknown'')),
      (''estimated_value'',
         (if truthy_num (estimated_value s) then get_value (estimated_value s) PyFloat PyNull
          else PyNull)),
      (''confidence_level'',
         (if truthy_num (estimated_value s)
          then get_value (confidence_level s) PyStr (PyStr ''LOW'')
          else PyStr ''LOW'')),
      (''confidence_score'',
         (if truthy_num (estimated_value s)
          then get_value (confidence_score s) PyInt (PyInt 0)
          else PyInt 0)),
      (''valuation_range'',
         (if truthy_num (estimated_value s)
          then get_value (valuation_range s) valuation_range_dict PyNull
          else PyNull)),
      (''valuation_date'', PyNull),
      (''appraiser_notes'', PyStr ''Valuation could not be completed due to system error'')]"

text \<open>Python truth of an envelope value.\<close>

fun truthy_value :: "pyval \<Rightarrow> bool" where
  "truthy_value (PyFloat x) = (x \<noteq> 0)"
| "truthy_value (PyInt i) = (i \<noteq> 0)"
| "truthy_value (PyBool b) = b"
| "truthy_value PyNull = False"
| "truthy_value (PyStr s) = (s \<noteq> [])"
| "truthy_value (PyList xs) = (xs \<noteq> [])"
| "truthy_value (PyDict kvs) = (kvs \<noteq> [])"

definition create_safe_response :: "PropertyValuationState \<Rightarrow> pydict" where
  "create_safe_response s =
     [(''status'',
         (case map_of (safe_response_data s) ''estimated_value'' of
            Some v \<Rightarrow> if truthy_value v then PyStr ''PARTIAL_SUCCESS'' else PyStr ''ERROR''
          | None \<Rightarrow> PyStr ''ERROR'')),
      (''agent'', PyStr ''PropertyValuation''),
      (''data'', PyDict (safe_response_data s)),
      (''errors'', PyList (map PyStr (errors s))),
      (''warnings'', PyList (map PyStr (warnings s)))]"

section \<open>The adjustment table in the words of the specification\<close>

text \<open>
  Trend: +2 rising, -2 declining, 0 stable. Demand: +3 high, -3 low, 0 moderate.
  Inventory: -2 high, +2 low, 0 moderate. Neighbourhood: +5 for a school rating of at
  least 9, +2 for at least 7, otherwise -2. The sum is clamped to [-20, 20].
\<close>

fun spec_trend :: "direction \<Rightarrow> int" where
  "spec_trend RISING = 2"
| "spec_trend DECLINING = - 2"
| "spec_trend STABLE = 0"

fun spec_demand :: "level \<Rightarrow> int" where
  "spec_demand HIGH = 3"
| "spec_demand LOW = - 3"
| "spec_demand MODERATE = 0"

fun spec_inventory :: "level \<Rightarrow> int" where
  "spec_inventory HIGH = - 2"
| "spec_inventory LOW = 2"
| "spec_inventory MODERATE = 0"

definition spec_neighborhood :: "int \<Rightarrow> int" where
  "spec_neighborhood rating = (if 9 \<le> rating then 5 else if 7 \<le> rating then 2 else - 2)"

definition spec_clamp :: "int \<Rightarrow> int" where
  "spec_clamp x = (if x < - 20 then - 20 else if 20 < x then 20 else x)"

section \<open>The flags and the invariant of the results, in the words of the specification\<close>

text \<open>
  The data-quality flags of the final valuation: square footage missing, fewer than three
  comparables, an adjustment of more than ten percent either way.
\<close>

definition quality_flags :: "PropertyValuationState \<Rightarrow> int \<Rightarrow> nat" where
  "quality_flags s adjustment =
     (if truthy_num (square_footage s) then 0 else 1) +
     (if length (comparable_properties s) < 3 then 1 else 0) +
     (if 10 < \<bar>adjustment\<bar> then 1 else 0)"

text \<open>The range that lies a fraction \<open>w\<close> of the value \<open>v\<close> on each side of it.\<close>

definition band :: "real \<Rightarrow> real \<Rightarrow> valuation_range_rec" where
  "band v w = \<lparr>min_value = v - w * v, max_value = v + w * v\<rparr>"

fun is_set :: "'a entry \<Rightarrow> bool" where
  "is_set (Val v) = True"
| "is_set _ = False"

text \<open>
  The results are set together, and the estimate lies within its range.
\<close>

definition results_consistent :: "PropertyValuationState \<Rightarrow> bool" where
  "results_consistent s \<longleftrightarrow>
     is_set (confidence_level s) = is_set (estimated_value s) \<and>
     is_set (valuation_range s) = is_set (estimated_value s) \<and>
     is_set (response_data s) = is_set (estimated_value s) \<and>
     (case (estimated_value s, valuation_range s) of
        (Val v, Val r) \<Rightarrow> min_value r \<le> v \<and> v \<le> max_value r
      | _ \<Rightarrow> True)"

text \<open>
  What the stages keep true between them: the results are consistent, a stored average
  price is not negative, and a stored adjustment lies in [-20, 20].
\<close>

definition pipeline_inv :: "PropertyValuationState \<Rightarrow> bool" where
  "pipeline_inv s \<longleftrightarrow>
     results_consistent s \<and>
     (case comparable_analysis s of Some ca \<Rightarrow> 0 \<le> average_sale_price ca | None \<Rightarrow> True) \<and>
     (case market_adjustment s of
        Some ma \<Rightarrow> - 20 \<le> total_adjustment_percent ma \<and> total_adjustment_percent ma \<le> 20
      | None \<Rightarrow> True)"

section \<open>A sample request\<close>

text \<open>
  The property of \<^verbatim>\<open>example_mortgage_to_property_valuation\<close> (a2a\_client.py), and one
  outcome of the random draws: an average price of 460000 and an adjustment of +3.
\<close>

definition example_request :: request_data_rec where
  "example_request =
     \<lparr>req_property_address = Val ''123 Main St, Anytown, ST 12345'',
      req_property_type = Val ''single_family'',
      req_square_footage = Val 2200,
      req_bedrooms = Val 4,
      req_bathrooms = Val 2.5,
      req_year_built = Val 2010,
      req_lot_size = Val 0.25\<rparr>"

definition example_draws :: draws where
  "example_draws =
     \<lparr>comparable_draw =
        \<lparr>price1 = 10000, sqft1 = 100, dom1 = 30,
         price2 = 5000, sqft2 = - 150, beds2 = 1, dom2 = 20,
         price3 = 5000, sqft3 = 50, dom3 = 40\<rparr>,
      market_draw =
        \<lparr>draw_market_direction = STABLE,
         draw_price_change_6_months = 1.5,
         draw_average_days_on_market = 40,
         draw_inventory_level = HIGH,
         draw_buyer_demand = HIGH,
         draw_school_rating = 7,
         draw_crime_rate = LOW,
         draw_walkability_score = 70,
         draw_transportation_access = GOOD\<rparr>\<rparr>"

definition example_state :: PropertyValuationState where
  "example_state = initial_state (Some ''req-1'') (Some ''MortgageApproval'') example_request"

text \<open>The same request without its square footage.\<close>

definition example_request_no_sqft :: request_data_rec where
  "example_request_no_sqft = example_request\<lparr>req_square_footage := Absent\<rparr>"

text \<open>The result fields of the state that a run ends in, if it ends in one.\<close>

fun result_fields ::
  "error + PropertyValuationState \<Rightarrow>
     (real entry \<times> string entry \<times> valuation_range_rec entry \<times> int entry) option" where
  "result_fields (Inr s) =
     Some (estimated_value s, confidence_level s, valuation_range s, confidence_score s)"
| "result_fields (Inl e) = None"

text \<open>A request that gives the address only.\<close>

definition example_request_bare :: request_data_rec where
  "example_request_bare =
     \<lparr>req_property_address = Val ''123 Main St, Anytown, ST 12345'',
      req_property_type = Absent,
      req_square_footage = Absent,
      req_bedrooms = Absent,
      req_bathrooms = Absent,
      req_year_built = Absent,
      req_lot_size = Absent\<rparr>"

definition example_state_bare :: PropertyValuationState where
  "example_state_bare =
     initial_state (Some ''req-2'') (Some ''MortgageApproval'') example_request_bare"

text \<open>A state whose estimate is the number zero.\<close>

definition example_state_zero :: PropertyValuationState where
  "example_state_zero =
     example_state\<lparr>estimated_value := Val 0, confidence_level := Val ''HIGH'',
       valuation_range := Val \<lparr>min_value = 0, max_value = 0\<rparr>\<rparr>"

text \<open>The logs and the progress marker of the state that a run ends in.\<close>

fun log_fields :: "error + PropertyValuationState \<Rightarrow> (string list \<times> string list \<times> string) option" where
  "log_fields (Inr s) = Some (errors s, warnings s, current_step s)"
| "log_fields (Inl e) = None"

section \<open>The confidence table and the validation contract, in the words of the specification\<close>

text \<open>
  No flag: HIGH, 85, 5 percent. One flag: MEDIUM, 70, 10 percent. Two or more: LOW, 55,
  15 percent.
\<close>

definition table_row :: "nat \<Rightarrow> string \<times> int \<times> real" where
  "table_row k =
     (if k = 0 then (''HIGH'', 85, 5 / 100)
      else if k = 1 then (''MEDIUM'', 70, 10 / 100)
      else (''LOW'', 55, 15 / 100))"

text \<open>
  A state carries the valuation \<open>v\<close> of the table row for \<open>k\<close> flags: in its result
  fields, in its response payload and in its final assessment.
\<close>

definition follows_table :: "real \<Rightarrow> nat \<Rightarrow> PropertyValuationState \<Rightarrow> bool" where
  "follows_table v k s \<longleftrightarrow>
     (case table_row k of (lvl, score, w) \<Rightarrow>
        estimated_value s = Val v \<and>
        confidence_level s = Val lvl \<and>
        valuation_range s = Val (band v w) \<and>
        (case response_data s of
           Val rd \<Rightarrow> rd_estimated_value rd = v \<and> rd_confidence_level rd = lvl \<and>
                    rd_confidence_score rd = score \<and> rd_valuation_range rd = band v w
         | _ \<Rightarrow> False) \<and>
        (case final_assessment s of
           Some fa \<Rightarrow> fa_estimated_value fa = v \<and> fa_confidence_score fa = score
         | None \<Rightarrow> False))"

text \<open>
  A value contains a field name: as a key of a dictionary, as an element of a list, as a
  part of a string. Nothing else contains anything.
\<close>

fun contains :: "pyval \<Rightarrow> string \<Rightarrow> bool" where
  "contains (PyDict kvs) f = has_key kvs f"
| "contains (PyList xs) f = (PyStr f \<in> set xs)"
| "contains (PyStr s) f = substring f s"
| "contains _ f = False"

text \<open>The \<^verbatim>\<open>data\<close> of an envelope; an envelope without the key has the empty dictionary.\<close>

definition data_of :: "pydict \<Rightarrow> pyval" where
  "data_of r = (case map_of r ''data'' of None \<Rightarrow> PyDict [] | Some v \<Rightarrow> v)"

text \<open>The state in which the sample run enters the final valuation.\<close>

definition example_state_analysed :: PropertyValuationState where
  "example_state_analysed =
     (case mock_comparable_properties_node (comparable_draw example_draws)
             (mock_property_data_collection_node example_state) of
        Inr s \<Rightarrow> mock_market_analysis_node (market_draw example_draws) s
      | Inl e \<Rightarrow> example_state)"

text \<open>The state in which the sample run leaves the final valuation.\<close>

definition example_state_valued :: PropertyValuationState where
  "example_state_valued =
     (case mock_final_valuation_node example_state_analysed of
        Inr s \<Rightarrow> s
      | Inl e \<Rightarrow> example_state)"

section \<open>Properties of the stages\<close>

declare run_from.simps [simp del]

text \<open>The definitions that evaluate the sample run.\<close>

lemmas example_defs = example_state_analysed_def example_state_def example_draws_def
  example_request_def initial_state_def

lemmas stage_defs = mock_property_data_collection_node_def data_completeness_def
  missing_fields_def mock_comparable_properties_node_def make_comparables_def
  analyse_comparables_def avg_price_def avg_price_per_sqft_def mock_market_analysis_node_def
  make_market_trends_def make_neighborhood_data_def market_adjustment_factors_def
  total_market_adjustment_def make_market_adjustment_def

lemmas run_defs = invoke_def run_from.simps should_continue_after_data_collection_def
  should_continue_after_comparables_def mock_final_valuation_node_def write_valuation_def
  data_quality_factors_def confidence_level_of_def confidence_score_of_def range_factor_def
  make_valuation_range_def mock_a2a_communication_node_def Let_def

text \<open>The two states in which the response dispatch of mock\_nodes.py can end.\<close>

lemma mock_a2a_result:
  assumes "mock_a2a_communication_node s = Inr s'"
  shows "s' = s\<lparr>current_step := ''valuation_ready_for_use''\<rparr> \<or>
         s' = s\<lparr>current_step := ''a2a_response_sent'',
                warnings := warnings s @ [dispatch_warning ''Mock response'' s]\<rparr>"
proof (cases "truthy_str (requesting_agent s) \<and> truthy_dict (response_data s)")
  case True
  with assms have "s' = s\<lparr>current_step := ''a2a_response_sent'',
                warnings := warnings s @ [dispatch_warning ''Mock response'' s]\<rparr>"
    by (cases "property_address s = Absent") (simp_all add: mock_a2a_communication_node_def)
  then show ?thesis by simp
next
  case False
  with assms have "s' = s\<lparr>current_step := ''valuation_ready_for_use''\<rparr>"
    by (auto simp: mock_a2a_communication_node_def)
  then show ?thesis by simp
qed

text \<open>The numbers that the sample run prints.\<close>

lemma sample_formats:
  "str_nat 3 = ''3''"
  "fmt_plus_1f 3 = ''+3.0''"
  "char_of (51::nat) = CHR ''3''"
  by code_simp+

subsection \<open>Market analysis\<close>

lemma factors_spec:
  "market_adjustment_factors (make_market_trends d) (make_neighborhood_data d) =
     \<lparr>trend_adjustment = spec_trend (draw_market_direction d),
      demand_adjustment = spec_demand (draw_buyer_demand d),
      inventory_adjustment = spec_inventory (draw_inventory_level d),
      neighborhood_adjustment = spec_neighborhood (draw_school_rating d)\<rparr>"
  by (cases "draw_market_direction d"; cases "draw_buyer_demand d"; cases "draw_inventory_level d")
     (simp_all add: market_adjustment_factors_def make_market_trends_def
        make_neighborhood_data_def spec_neighborhood_def)

lemma clamp_spec: "max (- 20) (min 20 x) = spec_clamp x"
  by (simp add: spec_clamp_def)

lemma spec_clamp_bounds: "- 20 \<le> spec_clamp x \<and> spec_clamp x \<le> 20"
  by (simp add: spec_clamp_def)

text \<open>
  C2. Whatever the market direction, the buyer demand, the inventory level and the school
  rating are, the market adjustment that the market analysis stores has the four
  per-factor adjustments of the table, and its total is their sum clamped to [-20, 20],
  hence within [-20, 20]. The variant of nodes.py stores the same adjustment whenever it
  returns.
\<close>

theorem market_adjustment_clamped:
  "(\<exists>ma. market_adjustment (mock_market_analysis_node d s) = Some ma \<and>
      adjustment_factors ma =
        \<lparr>trend_adjustment = spec_trend (draw_market_direction d),
         demand_adjustment = spec_demand (draw_buyer_demand d),
         inventory_adjustment = spec_inventory (draw_inventory_level d),
         neighborhood_adjustment = spec_neighborhood (draw_school_rating d)\<rparr> \<and>
      total_adjustment_percent ma =
        spec_clamp (spec_trend (draw_market_direction d) + spec_demand (draw_buyer_demand d) +
          spec_inventory (draw_inventory_level d) + spec_neighborhood (draw_school_rating d)) \<and>
      - 20 \<le> total_adjustment_percent ma \<and> total_adjustment_percent ma \<le> 20) \<and>
   (\<forall>s'. market_analysis_node llm d s = Inr s' \<longrightarrow>
      market_adjustment s' = market_adjustment (mock_market_analysis_node d s))"
proof -
  have "market_analysis_node llm d s = Inr s' \<longrightarrow>
      market_adjustment s' = market_adjustment (mock_market_analysis_node d s)" for s'
    by (auto simp: market_analysis_node_def split: if_splits option.splits)
  moreover have "\<exists>ma. market_adjustment (mock_market_analysis_node d s) = Some ma \<and>
      adjustment_factors ma =
        \<lparr>trend_adjustment = spec_trend (draw_market_direction d),
         demand_adjustment = spec_demand (draw_buyer_demand d),
         inventory_adjustment = spec_inventory (draw_inventory_level d),
         neighborhood_adjustment = spec_neighborhood (draw_school_rating d)\<rparr> \<and>
      total_adjustment_percent ma =
        spec_clamp (spec_trend (draw_market_direction d) + spec_demand (draw_buyer_demand d) +
          spec_inventory (draw_inventory_level d) + spec_neighborhood (draw_school_rating d)) \<and>
      - 20 \<le> total_adjustment_percent ma \<and> total_adjustment_percent ma \<le> 20"
    using spec_clamp_bounds
    by (simp add: mock_market_analysis_node_def factors_spec make_market_adjustment_def
          total_market_adjustment_def clamp_spec)
  ultimately show ?thesis by blast
qed

theorem market_adjustment_clamped_witness:
  "market_analysis_node None (market_draw example_draws) example_state =
     Inr (mock_market_analysis_node (market_draw example_draws) example_state) \<and>
   map_option total_adjustment_percent
     (market_adjustment (mock_market_analysis_node (market_draw example_draws) example_state)) =
     Some 3"
  using market_adjustment_clamped [of "market_draw example_draws" example_state None]
  by (simp add: example_draws_def example_state_def initial_state_def example_request_def
      market_analysis_node_def mock_market_analysis_node_def make_market_adjustment_def
      market_adjustment_factors_def make_market_trends_def make_neighborhood_data_def
      total_market_adjustment_def)

subsection \<open>Data collection\<close>

lemma missing_count:
  "length (missing_fields s) =
     (if truthy_num (square_footage s) then 0 else 1) +
     (if truthy_num (bedrooms s) then 0 else 1) +
     (if truthy_num (bathrooms s) then 0 else 1) +
     (if truthy_num (year_built s) then 0 else 1)"
  by (simp add: missing_fields_def)

lemma missing_le_4: "length (missing_fields s) \<le> 4"
  by (simp add: missing_fields_def)

lemma missing_names:
  "''square_footage'' \<in> set (missing_fields s) \<longleftrightarrow> \<not> truthy_num (square_footage s)"
  "''bedrooms'' \<in> set (missing_fields s) \<longleftrightarrow> \<not> truthy_num (bedrooms s)"
  "''bathrooms'' \<in> set (missing_fields s) \<longleftrightarrow> \<not> truthy_num (bathrooms s)"
  "''year_built'' \<in> set (missing_fields s) \<longleftrightarrow> \<not> truthy_num (year_built s)"
  by (simp_all add: missing_fields_def)

lemma missing_in_order:
  "missing_fields s =
     filter (\<lambda>f. f \<in> set (missing_fields s))
       [''square_footage'', ''bedrooms'', ''bathrooms'', ''year_built'']"
  by (simp add: missing_names) (simp add: missing_fields_def)

lemma not_truthy_num: "\<not> truthy_num e \<longleftrightarrow> e = Absent \<or> e = PyNone \<or> e = Val 0"
  by (cases e) simp_all

lemma repr_texts:
  "repr_str_list [] = ''[]''"
  "repr_str_list [a] = ''['' @ [CHR 0x27] @ a @ [CHR 0x27] @ '']''"
  "repr_str_list [a, b] =
     ''['' @ [CHR 0x27] @ a @ [CHR 0x27] @ '', '' @ [CHR 0x27] @ b @ [CHR 0x27] @ '']''"
  "repr_str_list [a, b, c] =
     ''['' @ [CHR 0x27] @ a @ [CHR 0x27] @ '', '' @ [CHR 0x27] @ b @ [CHR 0x27] @ '', '' @
       [CHR 0x27] @ c @ [CHR 0x27] @ '']''"
  "repr_str_list [a, b, c, d] =
     ''['' @ [CHR 0x27] @ a @ [CHR 0x27] @ '', '' @ [CHR 0x27] @ b @ [CHR 0x27] @ '', '' @
       [CHR 0x27] @ c @ [CHR 0x27] @ '', '' @ [CHR 0x27] @ d @ [CHR 0x27] @ '']''"
  by (simp_all add: repr_str_list_def)

text \<open>
  C4. With \<open>missing\<close> the number of required attributes (square footage, bedrooms,
  bathrooms, year built) that the data collection finds missing, that is, for which
  \<^verbatim>\<open>not state.get(field)\<close> holds (the key is missing, holds \<^verbatim>\<open>None\<close> or holds 0): no
  missing attribute gives COMPLETE, a quality score of 100 and unchanged logs; one or two
  give PARTIAL and exactly one more warning, which names the missing fields; three or
  more give INCOMPLETE and exactly one more error, which names them; four give the
  quality score 20; the quality score is \<open>max 0 (100 - 20 * missing)\<close>; and
  \<open>current_step\<close> becomes the marker \<^verbatim>\<open>property_data_collected\<close> in every case. The
  names in the message are those of exactly the attributes found missing, in the order
  square footage, bedrooms, bathrooms, year built, each in single quotes, separated by a
  comma and a space, in square brackets. The variant of nodes.py returns the same state
  whenever it returns, and it returns when the address and type keys are present and its
  language-model call returns.
\<close>

theorem data_intake_table:
  "(length (missing_fields s) = 0 \<longrightarrow>
      data_completeness s = ''COMPLETE'' \<and> data_quality_score s = 100 \<and>
      errors (mock_property_data_collection_node s) = errors s \<and>
      warnings (mock_property_data_collection_node s) = warnings s) \<and>
   (1 \<le> length (missing_fields s) \<and> length (missing_fields s) \<le> 2 \<longrightarrow>
      data_completeness s = ''PARTIAL'' \<and>
      errors (mock_property_data_collection_node s) = errors s \<and>
      warnings (mock_property_data_collection_node s) =
        warnings s @ [''Some property data missing: '' @ repr_str_list (missing_fields s)]) \<and>
   (3 \<le> length (missing_fields s) \<longrightarrow>
      data_completeness s = ''INCOMPLETE'' \<and>
      warnings (mock_property_data_collection_node s) = warnings s \<and>
      errors (mock_property_data_collection_node s) =
        errors s @ [''Insufficient property data: missing '' @ repr_str_list (missing_fields s)]) \<and>
   (length (missing_fields s) = 4 \<longrightarrow> data_quality_score s = 20) \<and>
   data_quality_score s = max 0 (100 - 20 * int (length (missing_fields s))) \<and>
   current_step (mock_property_data_collection_node s) = ''property_data_collected'' \<and>
   length (missing_fields s) =
     (if truthy_num (square_footage s) then 0 else 1) +
     (if truthy_num (bedrooms s) then 0 else 1) +
     (if truthy_num (bathrooms s) then 0 else 1) +
     (if truthy_num (year_built s) then 0 else 1) \<and>
   ((''square_footage'' \<in> set (missing_fields s)) =
      (square_footage s = Absent \<or> square_footage s = PyNone \<or> square_footage s = Val 0)) \<and>
   ((''bedrooms'' \<in> set (missing_fields s)) =
      (bedrooms s = Absent \<or> bedrooms s = PyNone \<or> bedrooms s = Val 0)) \<and>
   ((''bathrooms'' \<in> set (missing_fields s)) =
      (bathrooms s = Absent \<or> bathrooms s = PyNone \<or> bathrooms s = Val 0)) \<and>
   ((''year_built'' \<in> set (missing_fields s)) =
      (year_built s = Absent \<or> year_built s = PyNone \<or> year_built s = Val 0)) \<and>
   missing_fields s =
     filter (\<lambda>f. f \<in> set (missing_fields s))
       [''square_footage'', ''bedrooms'', ''bathrooms'', ''year_built''] \<and>
   repr_str_list [a] = ''['' @ [CHR 0x27] @ a @ [CHR 0x27] @ '']'' \<and>
   repr_str_list [a, b] =
     ''['' @ [CHR 0x27] @ a @ [CHR 0x27] @ '', '' @ [CHR 0x27] @ b @ [CHR 0x27] @ '']'' \<and>
   repr_str_list [a, b, c] =
     ''['' @ [CHR 0x27] @ a @ [CHR 0x27] @ '', '' @ [CHR 0x27] @ b @ [CHR 0x27] @ '', '' @
       [CHR 0x27] @ c @ [CHR 0x27] @ '']'' \<and>
   repr_str_list [a, b, c, e] =
     ''['' @ [CHR 0x27] @ a @ [CHR 0x27] @ '', '' @ [CHR 0x27] @ b @ [CHR 0x27] @ '', '' @
       [CHR 0x27] @ c @ [CHR 0x27] @ '', '' @ [CHR 0x27] @ e @ [CHR 0x27] @ '']'' \<and>
   (\<forall>s'. property_data_collection_node llm s = Inr s' \<longrightarrow>
      s' = mock_property_data_collection_node s) \<and>
   (property_address s \<noteq> Absent \<and> property_type s \<noteq> Absent \<longrightarrow>
      property_data_collection_node None s = Inr (mock_property_data_collection_node s))"
proof -
  have a: "length (missing_fields s) = 0 \<longrightarrow>
      data_completeness s = ''COMPLETE'' \<and> data_quality_score s = 100 \<and>
      errors (mock_property_data_collection_node s) = errors s \<and>
      warnings (mock_property_data_collection_node s) = warnings s"
    by (simp add: data_completeness_def data_quality_score_def
          mock_property_data_collection_node_def Let_def)
  have b: "1 \<le> length (missing_fields s) \<and> length (missing_fields s) \<le> 2 \<longrightarrow>
      data_completeness s = ''PARTIAL'' \<and>
      errors (mock_property_data_collection_node s) = errors s \<and>
      warnings (mock_property_data_collection_node s) =
        warnings s @ [''Some property data missing: '' @ repr_str_list (missing_fields s)]"
    by (auto simp: data_completeness_def mock_property_data_collection_node_def Let_def)
  have c: "3 \<le> length (missing_fields s) \<longrightarrow>
      data_completeness s = ''INCOMPLETE'' \<and>
      warnings (mock_property_data_collection_node s) = warnings s \<and>
      errors (mock_property_data_collection_node s) =
        errors s @ [''Insufficient property data: missing '' @ repr_str_list (missing_fields s)]"
    by (auto simp: data_completeness_def mock_property_data_collection_node_def Let_def)
  have d: "length (missing_fields s) = 4 \<longrightarrow> data_quality_score s = 20"
    by (simp add: data_quality_score_def)
  have e: "data_quality_score s = max 0 (100 - 20 * int (length (missing_fields s)))"
    by (simp add: data_quality_score_def mult.commute)
  have f: "current_step (mock_property_data_collection_node s) = ''property_data_collected''"
    by (simp add: mock_property_data_collection_node_def Let_def)
  have g: "\<forall>s'. property_data_collection_node llm s = Inr s' \<longrightarrow>
      s' = mock_property_data_collection_node s"
    by (auto simp: property_data_collection_node_def split: if_splits option.splits)
  have n: "(''square_footage'' \<in> set (missing_fields s)) =
      (square_footage s = Absent \<or> square_footage s = PyNone \<or> square_footage s = Val 0)"
    "(''bedrooms'' \<in> set (missing_fields s)) =
      (bedrooms s = Absent \<or> bedrooms s = PyNone \<or> bedrooms s = Val 0)"
    "(''bathrooms'' \<in> set (missing_fields s)) =
      (bathrooms s = Absent \<or> bathrooms s = PyNone \<or> bathrooms s = Val 0)"
    "(''year_built'' \<in> set (missing_fields s)) =
      (year_built s = Absent \<or> year_built s = PyNone \<or> year_built s = Val 0)"
    by (simp_all add: missing_names not_truthy_num)
  have h: "property_address s \<noteq> Absent \<and> property_type s \<noteq> Absent \<longrightarrow>
      property_data_collection_node None s = Inr (mock_property_data_collection_node s)"
    by (simp add: property_data_collection_node_def)
  show ?thesis
    by (intro conjI a b c d e f g h n missing_count missing_in_order repr_texts)
qed

theorem data_intake_table_witness:
  "(length (missing_fields example_state) = 0 \<and>
    data_completeness example_state = ''COMPLETE'' \<and> data_quality_score example_state = 100) \<and>
   (length (missing_fields (initial_state None None example_request_no_sqft)) = 1 \<and>
    warnings (mock_property_data_collection_node (initial_state None None example_request_no_sqft)) =
      [''Some property data missing: ['' @ [CHR 0x27] @ ''square_footage'' @ [CHR 0x27] @  '']'']) \<and>
   (length (missing_fields example_state_bare) = 4 \<and> data_quality_score example_state_bare = 20 \<and>
    data_completeness example_state_bare = ''INCOMPLETE'' \<and>
    errors (mock_property_data_collection_node example_state_bare) =
      [''Insufficient property data: missing ['' @ [CHR 0x27] @ ''square_footage'' @ [CHR 0x27] @
       '', '' @ [CHR 0x27] @ ''bedrooms'' @ [CHR 0x27] @
       '', '' @ [CHR 0x27] @ ''bathrooms'' @ [CHR 0x27] @
       '', '' @ [CHR 0x27] @ ''year_built'' @ [CHR 0x27] @ '']''] \<and>
    warnings (mock_property_data_collection_node example_state_bare) = []) \<and>
   property_data_collection_node None example_state = Inr (mock_property_data_collection_node example_state)"
proof -
  have m0: "missing_fields example_state = []"
    by (simp add: missing_fields_def example_state_def initial_state_def example_request_def)
  have m1: "missing_fields (initial_state None None example_request_no_sqft) = [''square_footage'']"
    by (simp add: missing_fields_def initial_state_def example_request_no_sqft_def example_request_def)
  have m4: "missing_fields example_state_bare =
      [''square_footage'', ''bedrooms'', ''bathrooms'', ''year_built'']"
    by (simp add: missing_fields_def example_state_bare_def initial_state_def example_request_bare_def)
  have w: "property_data_collection_node None example_state
      = Inr (mock_property_data_collection_node example_state)"
    by (simp add: property_data_collection_node_def example_state_def initial_state_def example_request_def)
  have i1: "initial_state None None example_request_no_sqft = s1 \<Longrightarrow> warnings s1 = []" for s1
    by (auto simp: initial_state_def)
  have i2: "errors example_state_bare = []" "warnings example_state_bare = []"
    by (simp_all add: example_state_bare_def initial_state_def)
  show ?thesis
    using data_intake_table [where s = example_state and llm = None]
      data_intake_table [where s = "initial_state None None example_request_no_sqft" and llm = None]
      data_intake_table [where s = example_state_bare and llm = None] w i1 i2
    by (simp add: m0 m1 m4 repr_str_list_def)
qed

subsection \<open>Final valuation\<close>

lemma factors_count:
  "length (data_quality_factors s adj) = quality_flags s adj"
  by (simp add: data_quality_factors_def quality_flags_def)

lemma range_band:
  "make_valuation_range v (confidence_level_of fs) =
     band v (snd (snd (table_row (length fs))))"
  by (cases fs) (auto simp: make_valuation_range_def confidence_level_of_def table_row_def
        band_def range_factor_def algebra_simps)

lemma write_valuation_table:
  "follows_table (base * (1 + real_of_int pct / 100)) (quality_flags s pct)
     (write_valuation head base pct addr s)"
proof -
  have l: "confidence_level_of fs = fst (table_row (length fs))" for fs
    by (cases fs) (auto simp: confidence_level_of_def table_row_def)
  have c: "confidence_score_of fs = fst (snd (table_row (length fs)))" for fs
    by (cases fs) (auto simp: confidence_score_of_def table_row_def)
  show ?thesis
    unfolding follows_table_def write_valuation_def Let_def range_band
    by (simp add: l c factors_count split_beta)
qed

text \<open>
  C3. For every record that enters the final valuation (its comparable analysis and
  market adjustment are stored and its address key is present), the stage returns, the
  estimate is the comparable average price times \<open>1 + adjustment / 100\<close>, and the number
  of data-quality flags (square footage missing, fewer than three comparables, an
  adjustment of more than ten percent either way) fixes the outputs by the table: no
  flag gives HIGH, 85 and a range of 5 percent of the estimate on each side; one flag
  gives MEDIUM, 70 and 10 percent; two or more give LOW, 55 and 15 percent. Both variants
  of the stage do so.
\<close>

theorem final_valuation_table:
  assumes "comparable_analysis s = Some ca"
    and "market_adjustment s = Some ma"
    and "property_address s \<noteq> Absent"
  shows "(\<exists>s'. mock_final_valuation_node s = Inr s' \<and>
            follows_table
              (average_sale_price ca * (1 + real_of_int (total_adjustment_percent ma) / 100))
              (quality_flags s (total_adjustment_percent ma)) s') \<and>
         (\<exists>s'. final_valuation_node None s = Inr s' \<and>
            follows_table
              (average_sale_price ca * (1 + real_of_int (total_adjustment_percent ma) / 100))
              (quality_flags s (total_adjustment_percent ma)) s') \<and>
         table_row 0 = (''HIGH'', 85, 5 / 100) \<and>
         table_row 1 = (''MEDIUM'', 70, 10 / 100) \<and>
         (\<forall>k\<ge>2. table_row k = (''LOW'', 55, 15 / 100))"
  using assms write_valuation_table
  by (simp add: mock_final_valuation_node_def final_valuation_node_def table_row_def)


lemma example_analysed:
  "map_option average_sale_price (comparable_analysis example_state_analysed) = Some 460000"
  "map_option total_adjustment_percent (market_adjustment example_state_analysed) = Some 3"
  "property_address example_state_analysed = Val ''123 Main St, Anytown, ST 12345''"
  "square_footage example_state_analysed = Val 2200"
  "length (comparable_properties example_state_analysed) = 3"
  by (simp_all add: example_defs stage_defs Let_def)

theorem final_valuation_table_witness:
  "comparable_analysis example_state_analysed \<noteq> None \<and>
   market_adjustment example_state_analysed \<noteq> None \<and>
   property_address example_state_analysed \<noteq> Absent \<and>
   (\<exists>s'. mock_final_valuation_node example_state_analysed = Inr s' \<and>
      follows_table 473800 0 s')"
proof -
  obtain ca where ca: "comparable_analysis example_state_analysed = Some ca"
    and avg: "average_sale_price ca = 460000"
    using example_analysed(1) by auto
  obtain ma where ma: "market_adjustment example_state_analysed = Some ma"
    and adj: "total_adjustment_percent ma = 3"
    using example_analysed(2) by auto
  have pa: "property_address example_state_analysed \<noteq> Absent"
    by (simp add: example_analysed(3))
  have k: "quality_flags example_state_analysed 3 = 0"
    by (simp add: quality_flags_def example_analysed)
  show ?thesis
    using final_valuation_table [OF ca ma pa] ca ma pa
    by (simp add: avg adj k)
qed

subsection \<open>The invariant of the results\<close>

lemma results_consistent_cong:
  assumes "estimated_value s' = estimated_value s"
    and "confidence_level s' = confidence_level s"
    and "valuation_range s' = valuation_range s"
    and "response_data s' = response_data s"
  shows "results_consistent s' = results_consistent s"
  by (simp add: results_consistent_def assms)

lemma pipeline_inv_cong:
  assumes "estimated_value s' = estimated_value s"
    and "confidence_level s' = confidence_level s"
    and "valuation_range s' = valuation_range s"
    and "response_data s' = response_data s"
    and "comparable_analysis s' = comparable_analysis s"
    and "market_adjustment s' = market_adjustment s"
  shows "pipeline_inv s' = pipeline_inv s"
  using results_consistent_cong [OF assms(1-4)] by (simp add: pipeline_inv_def assms(5,6))

lemma inv_initial: "pipeline_inv (initial_state rid agent request_data)"
  by (simp add: pipeline_inv_def results_consistent_def initial_state_def)

lemma inv_data_collection:
  "pipeline_inv s \<Longrightarrow> pipeline_inv (mock_property_data_collection_node s)"
  by (subst pipeline_inv_cong [of _ s])
     (simp_all add: mock_property_data_collection_node_def Let_def)

lemma avg_price_nonneg:
  assumes "comparable_draws_ok d"
  shows "0 \<le> avg_price (make_comparables d base_sqft beds baths)"
proof -
  have "0 \<le> 450000 + price1 d + (475000 + price2 d) + (435000 + price3 d)"
    using assms by (simp add: comparable_draws_ok_def)
  then show ?thesis
    by (simp add: avg_price_def make_comparables_def)
qed

lemma inv_comparables:
  assumes "pipeline_inv s" and "comparable_draws_ok d"
    and "mock_comparable_properties_node d s = Inr s'"
  shows "pipeline_inv s'"
proof -
  from assms(3) obtain base_sqft beds baths where
    s': "s' = s\<lparr>comparable_properties := make_comparables d base_sqft beds baths,
           comparable_analysis :=
             Some (analyse_comparables s (make_comparables d base_sqft beds baths)),
           current_step := ''comparables_analyzed''\<rparr>"
    by (auto simp: mock_comparable_properties_node_def Let_def split: option.splits)
  have "results_consistent s' = results_consistent s"
    by (rule results_consistent_cong) (simp_all add: s')
  then show ?thesis
    using assms(1) avg_price_nonneg [OF assms(2)]
    by (simp add: pipeline_inv_def) (simp add: s' analyse_comparables_def)
qed

lemma inv_market:
  assumes "pipeline_inv s"
  shows "pipeline_inv (mock_market_analysis_node d s)"
proof -
  have "results_consistent (mock_market_analysis_node d s) = results_consistent s"
    by (rule results_consistent_cong) (simp_all add: mock_market_analysis_node_def)
  then show ?thesis
    using assms
    by (simp add: pipeline_inv_def) (simp add: mock_market_analysis_node_def
          make_market_adjustment_def)
qed

lemma range_factor_nonneg: "0 \<le> range_factor l"
  by (simp add: range_factor_def)

lemma range_around:
  assumes "0 \<le> (v::real)" and "0 \<le> f"
  shows "v * (1 - f) \<le> v \<and> v \<le> v * (1 + f)"
  using assms by (simp add: algebra_simps)

lemma inv_write_valuation:
  assumes "pipeline_inv s" and "0 \<le> base" and "- 20 \<le> pct" and "pct \<le> 20"
  shows "pipeline_inv (write_valuation head base pct addr s)"
proof -
  have "0 \<le> 1 + real_of_int pct / 100"
    using assms(3) by simp
  then have v: "0 \<le> base * (1 + real_of_int pct / 100)"
    using assms(2) by simp
  have "results_consistent (write_valuation head base pct addr s)"
    using range_around [OF v range_factor_nonneg]
    by (simp add: results_consistent_def write_valuation_def Let_def make_valuation_range_def)
  moreover have "comparable_analysis (write_valuation head base pct addr s) =
      comparable_analysis s"
    and "market_adjustment (write_valuation head base pct addr s) = market_adjustment s"
    by (simp_all add: write_valuation_def Let_def)
  ultimately show ?thesis
    using assms(1) by (simp add: pipeline_inv_def)
qed

lemma inv_final:
  assumes "pipeline_inv s" and "mock_final_valuation_node s = Inr s'"
  shows "pipeline_inv s'"
proof -
  from assms(2) obtain ca ma where ca: "comparable_analysis s = Some ca"
    and ma: "market_adjustment s = Some ma"
    and s': "s' = write_valuation ''Mock valuation'' (average_sale_price ca)
               (total_adjustment_percent ma) (get (property_address s)) s"
    by (auto simp: mock_final_valuation_node_def split: option.splits if_splits)
  have "0 \<le> average_sale_price ca" and "- 20 \<le> total_adjustment_percent ma"
    and "total_adjustment_percent ma \<le> 20"
    using assms(1) by (simp_all add: pipeline_inv_def ca ma)
  then show ?thesis
    unfolding s' using assms(1) by (rule inv_write_valuation [rotated])
qed

lemma inv_a2a:
  assumes "pipeline_inv s" and "mock_a2a_communication_node s = Inr s'"
  shows "pipeline_inv s'"
proof -
  have "pipeline_inv s' = pipeline_inv s"
    using mock_a2a_result [OF assms(2)]
    by (intro pipeline_inv_cong) auto
  then show ?thesis using assms(1) by simp
qed

lemma inv_run_node:
  assumes "pipeline_inv s" and "comparable_draws_ok (comparable_draw d)"
    and "run_node d n s = Inr s'"
  shows "pipeline_inv s'"
proof (cases n)
  case DataCollection
  then show ?thesis using assms inv_data_collection by auto
next
  case ComparablesNode
  then show ?thesis using assms inv_comparables [of s "comparable_draw d" s'] by simp
next
  case MarketAnalysis
  then show ?thesis using assms inv_market by auto
next
  case FinalValuation
  then show ?thesis using assms inv_final [of s s'] by simp
next
  case A2ACommunication
  then show ?thesis using assms inv_a2a [of s s'] by simp
qed

lemma route_unchanged:
  assumes "\<not> (p = Conditional \<and> n = ComparablesNode)"
  shows "\<exists>x. route p n s = Inr (x, s)"
  using assms by (cases p; cases n) simp_all

lemma route_after_comparables:
  "route Conditional ComparablesNode s = Inr (x, s') \<Longrightarrow>
     s' = s \<or> s' = s\<lparr>warnings := warnings s @ [''Limited comparable data available'']\<rparr>"
  by (cases "comparable_analysis s")
     (simp_all add: should_continue_after_comparables_def split: if_splits)

lemma inv_route:
  assumes "pipeline_inv s" and "route p n s = Inr (x, s')"
  shows "pipeline_inv s'"
proof (cases "p = Conditional \<and> n = ComparablesNode")
  case False
  from route_unchanged [OF False, of s] assms(2) have "s' = s" by auto
  then show ?thesis using assms(1) by simp
next
  case True
  have w: "pipeline_inv
      (s\<lparr>warnings := warnings s @ [''Limited comparable data available'']\<rparr>) = pipeline_inv s"
    by (rule pipeline_inv_cong) simp_all
  from True assms(2) route_after_comparables [of s x s']
  have "s' = s \<or> s' = s\<lparr>warnings := warnings s @ [''Limited comparable data available'']\<rparr>"
    by simp
  then show ?thesis
  proof
    assume "s' = s"
    then show ?thesis using assms(1) by simp
  next
    assume "s' = s\<lparr>warnings := warnings s @ [''Limited comparable data available'']\<rparr>"
    then show ?thesis using assms(1) w by simp
  qed
qed

lemma inv_run_from:
  "pipeline_inv s \<Longrightarrow> comparable_draws_ok (comparable_draw d) \<Longrightarrow>
     run_from p d n s = Inr (tr, s') \<Longrightarrow> pipeline_inv s'"
proof (induction p d n s arbitrary: tr s' rule: run_from.induct)
  case (1 p d n s)
  from "1.prems"(3) obtain s1 where s1: "run_node d n s = Inr s1"
    by (auto simp: run_from.simps [of p d n s] split: sum.splits)
  then have i1: "pipeline_inv s1"
    using inv_run_node "1.prems" by blast
  from "1.prems"(3) s1 obtain x s2 where r: "route p n s1 = Inr (x, s2)"
    by (auto simp: run_from.simps [of p d n s] split: sum.splits)
  then have i2: "pipeline_inv s2"
    using inv_route i1 by blast
  show ?case
  proof (cases x)
    case None
    then show ?thesis
      using "1.prems"(3) s1 r i2 by (simp add: run_from.simps [of p d n s])
  next
    case (Some n')
    with "1.prems"(3) s1 r obtain tr' where lt: "nodes_after n' < nodes_after n"
      and rec: "run_from p d n' s2 = Inr (tr', s')"
      by (auto simp: run_from.simps [of p d n s] split: sum.splits if_splits)
    show ?thesis
      using "1.IH" [OF s1 r _ Some lt i2 "1.prems"(2) rec] by simp
  qed
qed


lemma llm_nodes_same:
  "property_data_collection_node llm s = Inr s' \<Longrightarrow> s' = mock_property_data_collection_node s"
  "comparable_properties_node llm cd s = Inr s' \<Longrightarrow> mock_comparable_properties_node cd s = Inr s'"
  "market_analysis_node llm md s = Inr s' \<Longrightarrow> s' = mock_market_analysis_node md s"
  by (auto simp: property_data_collection_node_def comparable_properties_node_def
        market_analysis_node_def split: if_splits option.splits sum.splits)

lemma inv_final_llm:
  assumes "pipeline_inv s" and "final_valuation_node llm s = Inr s'"
  shows "pipeline_inv s'"
proof -
  from assms(2) obtain ca ma where ca: "comparable_analysis s = Some ca"
    and ma: "market_adjustment s = Some ma"
    and s': "s' = write_valuation ''Valuation'' (average_sale_price ca)
               (total_adjustment_percent ma) (get (property_address s)) s"
    by (auto simp: final_valuation_node_def split: option.splits if_splits)
  have "0 \<le> average_sale_price ca" and "- 20 \<le> total_adjustment_percent ma"
    and "total_adjustment_percent ma \<le> 20"
    using assms(1) by (simp_all add: pipeline_inv_def ca ma)
  then show ?thesis
    unfolding s' using assms(1) by (rule inv_write_valuation [rotated])
qed

lemma inv_a2a_llm:
  assumes "pipeline_inv s" and "a2a_communication_node llm s = Inr s'"
  shows "pipeline_inv s'"
proof -
  have "pipeline_inv s' = pipeline_inv s"
    using assms(2)
    by (intro pipeline_inv_cong)
       (auto simp: a2a_communication_node_def split: if_splits option.splits)
  then show ?thesis using assms(1) by simp
qed

lemma inv_results:
  assumes "pipeline_inv s"
  shows "is_set (confidence_level s) = is_set (estimated_value s) \<and>
         is_set (valuation_range s) = is_set (estimated_value s) \<and>
         is_set (response_data s) = is_set (estimated_value s) \<and>
         (\<forall>v r. estimated_value s = Val v \<and> valuation_range s = Val r \<longrightarrow>
            min_value r \<le> v \<and> v \<le> max_value r)"
  using assms by (auto simp: pipeline_inv_def results_consistent_def)

text \<open>No stage touches the \<open>confidence_score\<close> key of the record.\<close>

lemma score_kept_total:
  "confidence_score (mock_property_data_collection_node s) = confidence_score s"
  "confidence_score (mock_market_analysis_node md s) = confidence_score s"
  "confidence_score (write_valuation head base pct addr s) = confidence_score s"
  by (simp_all add: mock_property_data_collection_node_def mock_market_analysis_node_def
        write_valuation_def Let_def)

lemma score_kept_comparables:
  assumes "mock_comparable_properties_node cd s = Inr s'"
  shows "confidence_score s' = confidence_score s"
proof -
  from assms obtain comps ca where
    "s' = s\<lparr>comparable_properties := comps, comparable_analysis := ca,
            current_step := ''comparables_analyzed''\<rparr>"
    by (auto simp: mock_comparable_properties_node_def Let_def split: option.splits)
  then show ?thesis by simp
qed

lemma score_kept_final:
  assumes "mock_final_valuation_node s = Inr s'"
  shows "confidence_score s' = confidence_score s"
proof -
  from assms obtain head base pct addr where "s' = write_valuation head base pct addr s"
    by (auto simp: mock_final_valuation_node_def split: option.splits if_splits)
  then show ?thesis by (simp add: score_kept_total)
qed

lemma score_kept_node:
  assumes "run_node d n s = Inr s'"
  shows "confidence_score s' = confidence_score s"
proof (cases n)
  case DataCollection
  then show ?thesis using assms score_kept_total(1) by auto
next
  case ComparablesNode
  then show ?thesis using assms score_kept_comparables by simp
next
  case MarketAnalysis
  then show ?thesis using assms score_kept_total(2) by auto
next
  case FinalValuation
  then show ?thesis using assms score_kept_final by simp
next
  case A2ACommunication
  then show ?thesis using assms mock_a2a_result [of s s'] by auto
qed


lemma score_kept_final_llm:
  assumes "final_valuation_node llm s = Inr s'"
  shows "confidence_score s' = confidence_score s"
proof -
  from assms obtain head base pct addr where "s' = write_valuation head base pct addr s"
    by (auto simp: final_valuation_node_def split: option.splits if_splits)
  then show ?thesis by (simp add: score_kept_total)
qed

lemma score_kept_a2a_llm:
  assumes "a2a_communication_node llm s = Inr s'"
  shows "confidence_score s' = confidence_score s"
proof (cases "truthy_str (requesting_agent s) \<and> truthy_dict (response_data s)")
  case True
  with assms have "s' = s\<lparr>current_step := ''a2a_response_sent'',
      warnings := warnings s @ [dispatch_warning ''Response'' s]\<rparr>"
    by (cases llm) (simp_all add: a2a_communication_node_def)
  then show ?thesis by simp
next
  case False
  with assms have "s' = s\<lparr>current_step := ''valuation_ready_for_use''\<rparr>"
    by (auto simp: a2a_communication_node_def)
  then show ?thesis by simp
qed

lemma score_kept_llm:
  assumes "property_data_collection_node llm s = Inr s' \<or>
       comparable_properties_node llm cd s = Inr s' \<or>
       market_analysis_node llm md s = Inr s' \<or>
       final_valuation_node llm s = Inr s' \<or>
       a2a_communication_node llm s = Inr s'"
  shows "confidence_score s' = confidence_score s"
  using assms
proof (elim disjE)
  assume "property_data_collection_node llm s = Inr s'"
  then show ?thesis using llm_nodes_same(1) score_kept_total(1) by metis
next
  assume "comparable_properties_node llm cd s = Inr s'"
  then show ?thesis using llm_nodes_same(2) score_kept_comparables by blast
next
  assume "market_analysis_node llm md s = Inr s'"
  then show ?thesis using llm_nodes_same(3) score_kept_total(2) by metis
next
  assume "final_valuation_node llm s = Inr s'"
  then show ?thesis using score_kept_final_llm by blast
next
  assume "a2a_communication_node llm s = Inr s'"
  then show ?thesis using score_kept_a2a_llm by blast
qed

text \<open>
  C1, as amended. The state that the constructors build satisfies the invariant; every
  stage, in both variants, and every run of either graph keeps it, the random draws being
  within the bounds passed to \<^verbatim>\<open>random.randint\<close>; and in every state that satisfies it
  the estimated value is set exactly when the confidence level, the valuation range and
  the response payload are set, and an estimate that is set lies between the bounds of
  its range. The record has no confidence score of its own among these fields: the
  constructors pass no \<open>confidence_score\<close> key and no stage, in either variant, changes
  that key.
\<close>

theorem results_invariant:
  "pipeline_inv (initial_state rid agent request_data) \<and>
   (pipeline_inv s \<longrightarrow>
      is_set (confidence_level s) = is_set (estimated_value s) \<and>
      is_set (valuation_range s) = is_set (estimated_value s) \<and>
      is_set (response_data s) = is_set (estimated_value s) \<and>
      (\<forall>v r. estimated_value s = Val v \<and> valuation_range s = Val r \<longrightarrow>
         min_value r \<le> v \<and> v \<le> max_value r)) \<and>
   (pipeline_inv s \<and> comparable_draws_ok (comparable_draw d) \<and> run_node d n s = Inr s' \<longrightarrow>
      pipeline_inv s') \<and>
   (pipeline_inv s \<and> comparable_draws_ok (comparable_draw d) \<and>
      run_from p d n s = Inr (tr, s') \<longrightarrow> pipeline_inv s') \<and>
   (pipeline_inv s \<and> comparable_draws_ok cd \<and>
      (property_data_collection_node llm s = Inr s' \<or>
       comparable_properties_node llm cd s = Inr s' \<or>
       market_analysis_node llm md s = Inr s' \<or>
       final_valuation_node llm s = Inr s' \<or>
       a2a_communication_node llm s = Inr s') \<longrightarrow> pipeline_inv s') \<and>
   confidence_score (initial_state rid agent request_data) = Absent \<and>
   (run_node d n s = Inr s' \<or>
    property_data_collection_node llm s = Inr s' \<or>
    comparable_properties_node llm cd s = Inr s' \<or>
    market_analysis_node llm md s = Inr s' \<or>
    final_valuation_node llm s = Inr s' \<or>
    a2a_communication_node llm s = Inr s' \<longrightarrow> confidence_score s' = confidence_score s)"
proof -
  have "pipeline_inv s'" if "pipeline_inv s" and "comparable_draws_ok cd"
    and "property_data_collection_node llm s = Inr s' \<or>
       comparable_properties_node llm cd s = Inr s' \<or>
       market_analysis_node llm md s = Inr s' \<or>
       final_valuation_node llm s = Inr s' \<or>
       a2a_communication_node llm s = Inr s'"
    using that(3)
  proof (elim disjE)
    assume "property_data_collection_node llm s = Inr s'"
    then show ?thesis using llm_nodes_same(1) inv_data_collection that(1) by blast
  next
    assume "comparable_properties_node llm cd s = Inr s'"
    then show ?thesis using llm_nodes_same(2) inv_comparables that(1,2) by blast
  next
    assume "market_analysis_node llm md s = Inr s'"
    then show ?thesis using llm_nodes_same(3) inv_market that(1) by blast
  next
    assume "final_valuation_node llm s = Inr s'"
    then show ?thesis using inv_final_llm that(1) by blast
  next
    assume "a2a_communication_node llm s = Inr s'"
    then show ?thesis using inv_a2a_llm that(1) by blast
  qed
  moreover have "confidence_score (initial_state rid agent request_data) = Absent"
    by (simp add: initial_state_def)
  moreover have "confidence_score s' = confidence_score s"
    if "run_node d n s = Inr s' \<or>
      property_data_collection_node llm s = Inr s' \<or>
      comparable_properties_node llm cd s = Inr s' \<or>
      market_analysis_node llm md s = Inr s' \<or>
      final_valuation_node llm s = Inr s' \<or>
      a2a_communication_node llm s = Inr s'"
    using that score_kept_node [of d n s s'] score_kept_llm [of llm s s' cd md] by blast
  ultimately show ?thesis
    using inv_initial inv_results inv_run_node inv_run_from by blast
qed

lemma example_run:
  "\<exists>s'. run_from Linear example_draws DataCollection example_state =
      Inr ([DataCollection, ComparablesNode, MarketAnalysis, FinalValuation, A2ACommunication], s')
      \<and> estimated_value s' = Val 473800"
  by (simp add: example_defs stage_defs run_defs)

theorem results_invariant_witness:
  "pipeline_inv example_state \<and> comparable_draws_ok (comparable_draw example_draws) \<and>
   (\<exists>s'. run_from Linear example_draws DataCollection example_state =
      Inr ([DataCollection, ComparablesNode, MarketAnalysis, FinalValuation, A2ACommunication], s')
      \<and> estimated_value s' = Val 473800 \<and> pipeline_inv s' \<and> is_set (valuation_range s'))"
proof -
  have d: "comparable_draws_ok (comparable_draw example_draws)"
    by (simp add: example_draws_def comparable_draws_ok_def)
  have i: "pipeline_inv example_state"
    unfolding example_state_def using results_invariant by blast
  obtain s' where r: "run_from Linear example_draws DataCollection example_state =
      Inr ([DataCollection, ComparablesNode, MarketAnalysis, FinalValuation, A2ACommunication], s')"
    and e: "estimated_value s' = Val 473800"
    using example_run by blast
  have p: "pipeline_inv s'"
    using results_invariant [of _ _ _ example_state example_draws _ s' Linear]
      i d r by blast
  have "is_set (valuation_range s')"
    using results_invariant [of _ _ _ s'] p e by simp
  with d i r e p show ?thesis by blast
qed

text \<open>
  The claim C1 as stated fails: after the sample run the estimated value, the confidence
  level and the valuation range are set, and the record has no \<open>confidence_score\<close>.
\<close>

theorem record_has_no_confidence_score:
  "result_fields (invoke Linear example_draws example_state) =
     Some (Val 473800, Val ''HIGH'', Val \<lparr>min_value = 450110, max_value = 497490\<rparr>, Absent)"
  by (simp add: example_defs stage_defs run_defs)

subsection \<open>Validation of a response envelope\<close>

lemma all_in_data_fields:
  "all_in required_data_fields d = Inr True \<longleftrightarrow>
     contains d ''estimated_value'' \<and> contains d ''confidence_level'' \<and>
     contains d ''valuation_range''"
  by (cases d) (simp_all add: required_data_fields_def has_key_def not_iterable_def)

lemma all_required_fields:
  "list_all (has_key r) required_fields \<longleftrightarrow>
     has_key r ''status'' \<and> has_key r ''request_id'' \<and> has_key r ''agent''"
  by (simp add: required_fields_def)

lemma validate_true_iff:
  "validate_a2a_response r = Inr True \<longleftrightarrow>
     has_key r ''status'' \<and> has_key r ''request_id'' \<and> has_key r ''agent'' \<and>
     (map_of r ''status'' = Some (PyStr ''SUCCESS'') \<longrightarrow>
        contains (data_of r) ''estimated_value'' \<and> contains (data_of r) ''confidence_level'' \<and>
        contains (data_of r) ''valuation_range'')"
proof (cases "map_of r ''status'' = Some (PyStr ''SUCCESS'')")
  case True
  then show ?thesis
    using all_in_data_fields [of "data_of r"]
    by (auto simp: validate_a2a_response_def all_required_fields data_of_def Let_def)
next
  case False
  then show ?thesis
    by (simp add: validate_a2a_response_def all_required_fields)
qed

lemma validate_rejects:
  assumes "map_of r ''status'' = Some (PyStr ''SUCCESS'')"
    and "map_of r ''data'' = Some (PyDict kvs)"
    and "\<not> has_key kvs ''valuation_range''"
  shows "validate_a2a_response r = Inr False"
  using assms
  by (simp add: validate_a2a_response_def required_data_fields_def has_key_def Let_def)

text \<open>
  C5. \<^verbatim>\<open>validate_a2a_response\<close> returns \<^verbatim>\<open>True\<close> for an envelope exactly when the envelope has
  the keys \<^verbatim>\<open>status\<close>, \<^verbatim>\<open>request_id\<close> and \<^verbatim>\<open>agent\<close> and, if its status is \<^verbatim>\<open>SUCCESS\<close>,
  its data contains \<^verbatim>\<open>estimated_value\<close>, \<^verbatim>\<open>confidence_level\<close> and \<^verbatim>\<open>valuation_range\<close>. It
  returns \<^verbatim>\<open>False\<close> for a \<^verbatim>\<open>SUCCESS\<close> envelope whose data dictionary lacks
  \<^verbatim>\<open>valuation_range\<close>, and \<^verbatim>\<open>True\<close> for an \<^verbatim>\<open>ERROR\<close> envelope that has the three keys
  only.
\<close>

theorem validate_contract:
  "(validate_a2a_response r = Inr True \<longleftrightarrow>
      has_key r ''status'' \<and> has_key r ''request_id'' \<and> has_key r ''agent'' \<and>
      (map_of r ''status'' = Some (PyStr ''SUCCESS'') \<longrightarrow>
         contains (data_of r) ''estimated_value'' \<and> contains (data_of r) ''confidence_level'' \<and>
         contains (data_of r) ''valuation_range'')) \<and>
   (map_of r ''status'' = Some (PyStr ''SUCCESS'') \<and> map_of r ''data'' = Some (PyDict kvs) \<and>
      \<not> has_key kvs ''valuation_range'' \<longrightarrow> validate_a2a_response r = Inr False) \<and>
   validate_a2a_response
     [(''status'', PyStr ''ERROR''), (''request_id'', PyStr rid), (''agent'', PyStr a)] = Inr True"
  using validate_true_iff [of r] validate_rejects [of r kvs]
  by (simp add: validate_a2a_response_def required_fields_def has_key_def)

theorem validate_contract_witness:
  "map_of [(''status'', PyStr ''SUCCESS''), (''request_id'', PyStr ''req-1''),
           (''agent'', PyStr ''PropertyValuation''),
           (''data'', PyDict [(''estimated_value'', PyFloat 473800),
                              (''confidence_level'', PyStr ''HIGH'')])] ''status'' =
     Some (PyStr ''SUCCESS'') \<and>
   validate_a2a_response
     [(''status'', PyStr ''SUCCESS''), (''request_id'', PyStr ''req-1''),
      (''agent'', PyStr ''PropertyValuation''),
      (''data'', PyDict [(''estimated_value'', PyFloat 473800),
                         (''confidence_level'', PyStr ''HIGH'')])] = Inr False \<and>
   validate_a2a_response
     [(''status'', PyStr ''SUCCESS''), (''request_id'', PyStr ''req-1''),
      (''agent'', PyStr ''PropertyValuation''),
      (''data'', PyDict [(''estimated_value'', PyFloat 473800),
                         (''confidence_level'', PyStr ''HIGH''),
                         (''valuation_range'', PyDict [(''min_value'', PyFloat 450110),
                                                       (''max_value'', PyFloat 497490)])])] =
     Inr True"
  using validate_contract
    [of "[(''status'', PyStr ''SUCCESS''), (''request_id'', PyStr ''req-1''),
          (''agent'', PyStr ''PropertyValuation''),
          (''data'', PyDict [(''estimated_value'', PyFloat 473800),
                             (''confidence_level'', PyStr ''HIGH'')])]"
        "[(''estimated_value'', PyFloat 473800), (''confidence_level'', PyStr ''HIGH'')]"]
    validate_contract
    [of "[(''status'', PyStr ''SUCCESS''), (''request_id'', PyStr ''req-1''),
          (''agent'', PyStr ''PropertyValuation''),
          (''data'', PyDict [(''estimated_value'', PyFloat 473800),
                             (''confidence_level'', PyStr ''HIGH''),
                             (''valuation_range'', PyDict [(''min_value'', PyFloat 450110),
                                                           (''max_value'', PyFloat 497490)])])]"]
  by (simp add: has_key_def data_of_def)

subsection \<open>The request boundary\<close>

lemma response_data_dict_keys:
  "response_data_dict rd =
     PyDict
      [(''property_address'',
          (case rd_property_address rd of None \<Rightarrow> PyNull | Some a \<Rightarrow> PyStr a)),
       (''estimated_value'', PyFloat (rd_estimated_value rd)),
       (''valuation_range'',
          PyDict [(''min_value'', PyFloat (min_value (rd_valuation_range rd))),
                  (''max_value'', PyFloat (max_value (rd_valuation_range rd)))]),
       (''confidence_level'', PyStr (rd_confidence_level rd)),
       (''confidence_score'', PyInt (rd_confidence_score rd)),
       (''valuation_date'', PyStr (rd_valuation_date rd)),
       (''appraiser_notes'', PyStr (rd_appraiser_notes rd))]"
  by (simp add: response_data_dict_def valuation_range_dict_def)

lemma success_envelope_valid:
  assumes "workflow (initial_state (Some rid) (Some agent) request_data) = Inr result"
    and "response_data result = Val rd"
  shows "validate_a2a_response
           (process_valuation_request workflow agent_name rid request_data agent) = Inr True"
  using assms
  by (simp add: process_valuation_request_def validate_a2a_response_def required_fields_def
        required_data_fields_def has_key_def response_data_dict_keys)

text \<open>
  C6. \<^verbatim>\<open>process_valuation_request\<close> returns an envelope with the keys \<^verbatim>\<open>status\<close>,
  \<^verbatim>\<open>request_id\<close> and \<^verbatim>\<open>agent\<close> for every workflow and every request. When the workflow
  returns a final record, the envelope is the \<^verbatim>\<open>SUCCESS\<close> envelope whose errors and
  warnings are the logs of that record and whose data is the response payload of that
  record, key by key (\<^verbatim>\<open>None\<close> when the record holds \<^verbatim>\<open>None\<close> for it, the empty
  dictionary when the record has no such key); with a payload the validation accepts it.
  When the workflow raises an exception, it is the envelope with status \<^verbatim>\<open>ERROR\<close>, the
  request id, the agent, the text of the exception and the data \<^verbatim>\<open>None\<close>, which the
  validation accepts. No exception of the workflow reaches the caller. The record that
  the workflow receives carries the request id and the requesting agent of the call.
\<close>

theorem process_valuation_request_envelope:
  "has_key (process_valuation_request workflow agent_name rid request_data agent) ''status'' \<and>
   map_of (process_valuation_request workflow agent_name rid request_data agent) ''request_id'' =
     Some (PyStr rid) \<and>
   map_of (process_valuation_request workflow agent_name rid request_data agent) ''agent'' =
     Some (PyStr agent_name) \<and>
   (\<forall>result. workflow (initial_state (Some rid) (Some agent) request_data) = Inr result \<longrightarrow>
      process_valuation_request workflow agent_name rid request_data agent =
        [(''status'', PyStr ''SUCCESS''),
         (''request_id'', PyStr rid),
         (''agent'', PyStr agent_name),
         (''data'',
            (case response_data result of
               Absent \<Rightarrow> PyDict []
             | PyNone \<Rightarrow> PyNull
             | Val rd \<Rightarrow>
                 PyDict
                  [(''property_address'',
                      (case rd_property_address rd of None \<Rightarrow> PyNull | Some a \<Rightarrow> PyStr a)),
                   (''estimated_value'', PyFloat (rd_estimated_value rd)),
                   (''valuation_range'',
                      PyDict [(''min_value'', PyFloat (min_value (rd_valuation_range rd))),
                              (''max_value'', PyFloat (max_value (rd_valuation_range rd)))]),
                   (''confidence_level'', PyStr (rd_confidence_level rd)),
                   (''confidence_score'', PyInt (rd_confidence_score rd)),
                   (''valuation_date'', PyStr (rd_valuation_date rd)),
                   (''appraiser_notes'', PyStr (rd_appraiser_notes rd))])),
         (''errors'', PyList (map PyStr (errors result))),
         (''warnings'', PyList (map PyStr (warnings result)))] \<and>
      (is_set (response_data result) \<longrightarrow>
         validate_a2a_response
           (process_valuation_request workflow agent_name rid request_data agent) = Inr True)) \<and>
   (\<forall>e. workflow (initial_state (Some rid) (Some agent) request_data) = Inl e \<longrightarrow>
      process_valuation_request workflow agent_name rid request_data agent =
        [(''status'', PyStr ''ERROR''),
         (''request_id'', PyStr rid),
         (''agent'', PyStr agent_name),
         (''error_message'', PyStr (error_str e)),
         (''data'', PyNull)] \<and>
      validate_a2a_response
        (process_valuation_request workflow agent_name rid request_data agent) = Inr True) \<and>
   error_str (TypeError m) = m \<and>
   error_str (KeyError k) = [CHR 0x27] @ k @ [CHR 0x27] \<and>
   error_str (OtherError m) = m \<and>
   request_id (initial_state (Some rid) (Some agent) request_data) = Val rid \<and>
   requesting_agent (initial_state (Some rid) (Some agent) request_data) = Val agent"
proof (cases "workflow (initial_state (Some rid) (Some agent) request_data)")
  case (Inl e)
  then show ?thesis
    by (simp add: process_valuation_request_def has_key_def validate_a2a_response_def
          required_fields_def initial_state_def)
next
  case (Inr result)
  have v: "is_set (response_data result) \<longrightarrow>
         validate_a2a_response
           (process_valuation_request workflow agent_name rid request_data agent) = Inr True"
    using success_envelope_valid [of workflow rid agent request_data result _ agent_name] Inr
    by (cases "response_data result") simp_all
  have d: "get_value (response_data result) response_data_dict (PyDict []) =
      (case response_data result of
         Absent \<Rightarrow> PyDict []
       | PyNone \<Rightarrow> PyNull
       | Val rd \<Rightarrow>
           PyDict
            [(''property_address'',
                (case rd_property_address rd of None \<Rightarrow> PyNull | Some a \<Rightarrow> PyStr a)),
             (''estimated_value'', PyFloat (rd_estimated_value rd)),
             (''valuation_range'',
                PyDict [(''min_value'', PyFloat (min_value (rd_valuation_range rd))),
                        (''max_value'', PyFloat (max_value (rd_valuation_range rd)))]),
             (''confidence_level'', PyStr (rd_confidence_level rd)),
             (''confidence_score'', PyInt (rd_confidence_score rd)),
             (''valuation_date'', PyStr (rd_valuation_date rd)),
             (''appraiser_notes'', PyStr (rd_appraiser_notes rd))])"
    by (cases "response_data result") (simp_all add: response_data_dict_keys)
  have p: "process_valuation_request workflow agent_name rid request_data agent =
        [(''status'', PyStr ''SUCCESS''),
         (''request_id'', PyStr rid),
         (''agent'', PyStr agent_name),
         (''data'', get_value (response_data result) response_data_dict (PyDict [])),
         (''errors'', PyList (map PyStr (errors result))),
         (''warnings'', PyList (map PyStr (warnings result)))]"
    using Inr by (simp add: process_valuation_request_def)
  have i: "request_id (initial_state (Some rid) (Some agent) request_data) = Val rid"
    "requesting_agent (initial_state (Some rid) (Some agent) request_data) = Val agent"
    by (simp_all add: initial_state_def)
  show ?thesis
    using v Inr unfolding p d by (simp add: has_key_def i)
qed

lemma example_no_sqft_raises:
  "invoke Linear example_draws
     (initial_state (Some ''req-1'') (Some ''MortgageApproval'') example_request_no_sqft) =
     Inl (TypeError none_plus_int)"
  by (simp add: example_request_no_sqft_def example_defs stage_defs run_defs)

lemma example_succeeds:
  "\<exists>s'. invoke Linear example_draws
     (initial_state (Some ''req-1'') (Some ''MortgageApproval'') example_request) = Inr s' \<and>
     response_data s' = Val
       \<lparr>rd_property_address = Some ''123 Main St, Anytown, ST 12345'',
        rd_estimated_value = 473800,
        rd_valuation_range = \<lparr>min_value = 450110, max_value = 497490\<rparr>,
        rd_confidence_level = ''HIGH'',
        rd_confidence_score = 85,
        rd_valuation_date = ''2024-12-15'',
        rd_appraiser_notes =
          ''Mock valuation based on 3 comparable sales with +3.0% market adjustment''\<rparr> \<and>
     errors s' = [] \<and>
     warnings s' = [''Mock response sent to MortgageApproval for request req-1'']"
  by (simp add: example_defs stage_defs run_defs dispatch_warning_def sample_formats)

theorem process_valuation_request_envelope_witness:
  "process_valuation_request (invoke Linear example_draws) ''PropertyValuation (Mock)'' ''req-1''
     example_request_no_sqft ''MortgageApproval'' =
     [(''status'', PyStr ''ERROR''),
      (''request_id'', PyStr ''req-1''),
      (''agent'', PyStr ''PropertyValuation (Mock)''),
      (''error_message'',
         PyStr (''unsupported operand type(s) for +: '' @ [CHR 0x27] @ ''NoneType'' @ [CHR 0x27] @
                '' and '' @ [CHR 0x27] @ ''int'' @ [CHR 0x27])),
      (''data'', PyNull)] \<and>
   process_valuation_request (invoke Linear example_draws) ''PropertyValuation (Mock)'' ''req-1''
     example_request ''MortgageApproval'' =
     [(''status'', PyStr ''SUCCESS''),
      (''request_id'', PyStr ''req-1''),
      (''agent'', PyStr ''PropertyValuation (Mock)''),
      (''data'',
         PyDict
          [(''property_address'', PyStr ''123 Main St, Anytown, ST 12345''),
           (''estimated_value'', PyFloat 473800),
           (''valuation_range'',
              PyDict [(''min_value'', PyFloat 450110), (''max_value'', PyFloat 497490)]),
           (''confidence_level'', PyStr ''HIGH''),
           (''confidence_score'', PyInt 85),
           (''valuation_date'', PyStr ''2024-12-15''),
           (''appraiser_notes'',
              PyStr ''Mock valuation based on 3 comparable sales with +3.0% market adjustment'')]),
      (''errors'', PyList []),
      (''warnings'',
         PyList [PyStr ''Mock response sent to MortgageApproval for request req-1''])] \<and>
   validate_a2a_response
     (process_valuation_request (invoke Linear example_draws) ''PropertyValuation (Mock)''
        ''req-1'' example_request ''MortgageApproval'') = Inr True"
proof -
  obtain s' where ok: "invoke Linear example_draws
     (initial_state (Some ''req-1'') (Some ''MortgageApproval'') example_request) = Inr s'"
    and rd: "response_data s' = Val
       \<lparr>rd_property_address = Some ''123 Main St, Anytown, ST 12345'',
        rd_estimated_value = 473800,
        rd_valuation_range = \<lparr>min_value = 450110, max_value = 497490\<rparr>,
        rd_confidence_level = ''HIGH'',
        rd_confidence_score = 85,
        rd_valuation_date = ''2024-12-15'',
        rd_appraiser_notes =
          ''Mock valuation based on 3 comparable sales with +3.0% market adjustment''\<rparr>"
    and e: "errors s' = []"
    and w: "warnings s' = [''Mock response sent to MortgageApproval for request req-1'']"
    using example_succeeds by blast
  have a: "process_valuation_request (invoke Linear example_draws) ''PropertyValuation (Mock)''
     ''req-1'' example_request_no_sqft ''MortgageApproval'' =
     [(''status'', PyStr ''ERROR''),
      (''request_id'', PyStr ''req-1''),
      (''agent'', PyStr ''PropertyValuation (Mock)''),
      (''error_message'',
         PyStr (''unsupported operand type(s) for +: '' @ [CHR 0x27] @ ''NoneType'' @ [CHR 0x27] @
                '' and '' @ [CHR 0x27] @ ''int'' @ [CHR 0x27])),
      (''data'', PyNull)]"
    using process_valuation_request_envelope
        [of "invoke Linear example_draws" "''PropertyValuation (Mock)''" "''req-1''"
            example_request_no_sqft "''MortgageApproval''"]
      example_no_sqft_raises
    by (simp add: none_plus_int_def)
  have b: "process_valuation_request (invoke Linear example_draws) ''PropertyValuation (Mock)''
     ''req-1'' example_request ''MortgageApproval'' =
     [(''status'', PyStr ''SUCCESS''),
      (''request_id'', PyStr ''req-1''),
      (''agent'', PyStr ''PropertyValuation (Mock)''),
      (''data'',
         PyDict
          [(''property_address'', PyStr ''123 Main St, Anytown, ST 12345''),
           (''estimated_value'', PyFloat 473800),
           (''valuation_range'',
              PyDict [(''min_value'', PyFloat 450110), (''max_value'', PyFloat 497490)]),
           (''confidence_level'', PyStr ''HIGH''),
           (''confidence_score'', PyInt 85),
           (''valuation_date'', PyStr ''2024-12-15''),
           (''appraiser_notes'',
              PyStr ''Mock valuation based on 3 comparable sales with +3.0% market adjustment'')]),
      (''errors'', PyList []),
      (''warnings'',
         PyList [PyStr ''Mock response sent to MortgageApproval for request req-1''])]"
    using process_valuation_request_envelope
        [of "invoke Linear example_draws" "''PropertyValuation (Mock)''" "''req-1''"
            example_request "''MortgageApproval''"]
      ok rd e w
    by simp
  have c: "validate_a2a_response
     (process_valuation_request (invoke Linear example_draws) ''PropertyValuation (Mock)''
        ''req-1'' example_request ''MortgageApproval'') = Inr True"
    unfolding b
    by (simp add: validate_a2a_response_def required_fields_def required_data_fields_def
          has_key_def)
  from a b c show ?thesis by blast
qed

subsection \<open>Response dispatch\<close>

lemma dispatch_standalone:
  assumes "\<not> truthy_str (requesting_agent s) \<or> \<not> is_set (response_data s)"
  shows "mock_a2a_communication_node s = Inr (s\<lparr>current_step := ''valuation_ready_for_use''\<rparr>) \<and>
         a2a_communication_node llm s = Inr (s\<lparr>current_step := ''valuation_ready_for_use''\<rparr>)"
  using assms
  by (cases "response_data s")
     (simp_all add: mock_a2a_communication_node_def a2a_communication_node_def)

lemma dispatch_a2a:
  assumes "requesting_agent s = Val a" and "a \<noteq> []" and "response_data s = Val rd"
  shows "(property_address s \<noteq> Absent \<longrightarrow>
           mock_a2a_communication_node s =
             Inr (s\<lparr>current_step := ''a2a_response_sent'',
                    warnings := warnings s @
                      [''Mock response sent to '' @ a @ '' for request '' @
                       request_id_text (request_id s)]\<rparr>)) \<and>
         (property_address s = Absent \<longrightarrow>
           mock_a2a_communication_node s = Inl (KeyError ''property_address'')) \<and>
         a2a_communication_node None s =
           Inr (s\<lparr>current_step := ''a2a_response_sent'',
                  warnings := warnings s @
                    [''Response sent to '' @ a @ '' for request '' @
                     request_id_text (request_id s)]\<rparr>) \<and>
         a2a_communication_node (Some e) s = Inl e"
  using assms
  by (simp add: mock_a2a_communication_node_def a2a_communication_node_def
        dispatch_warning_def)

lemma truthy_str_iff: "truthy_str e \<longleftrightarrow> (\<exists>a. e = Val a \<and> a \<noteq> [])"
  by (cases e) simp_all

text \<open>
  C7, as amended. When the record has no requesting agent (the key is missing, holds
  \<^verbatim>\<open>None\<close> or holds the empty string) or has no response payload, the response dispatch
  returns the record with \<open>current_step\<close> set to \<^verbatim>\<open>valuation_ready_for_use\<close> and nothing
  else changed: no warning is appended, whether or not there is a requesting agent. When
  the record has a requesting agent and a response payload, the dispatch returns the
  record with \<open>current_step\<close> set to \<^verbatim>\<open>a2a_response_sent\<close> and exactly one warning
  appended, which names the requesting agent and the request id (\<^verbatim>\<open>N/A\<close> for a missing
  request id), and nothing else changed; in that case the variant of mock\_nodes.py
  needs the address key of the record, and raises \<^verbatim>\<open>KeyError\<close> without it, and the
  variant of nodes.py raises what its language-model call raises. The error log is never
  changed.
\<close>

theorem dispatch_warning_rule:
  "(\<not> truthy_str (requesting_agent s) \<or> \<not> is_set (response_data s) \<longrightarrow>
      mock_a2a_communication_node s = Inr (s\<lparr>current_step := ''valuation_ready_for_use''\<rparr>) \<and>
      a2a_communication_node llm s = Inr (s\<lparr>current_step := ''valuation_ready_for_use''\<rparr>)) \<and>
   (requesting_agent s = Val a \<and> a \<noteq> [] \<and> response_data s = Val rd \<longrightarrow>
      (property_address s \<noteq> Absent \<longrightarrow>
         mock_a2a_communication_node s =
           Inr (s\<lparr>current_step := ''a2a_response_sent'',
                  warnings := warnings s @
                    [''Mock response sent to '' @ a @ '' for request '' @
                     request_id_text (request_id s)]\<rparr>)) \<and>
      (property_address s = Absent \<longrightarrow>
         mock_a2a_communication_node s = Inl (KeyError ''property_address'')) \<and>
      a2a_communication_node None s =
        Inr (s\<lparr>current_step := ''a2a_response_sent'',
               warnings := warnings s @
                 [''Response sent to '' @ a @ '' for request '' @
                  request_id_text (request_id s)]\<rparr>) \<and>
      a2a_communication_node (Some e) s = Inl e) \<and>
   (truthy_str (requesting_agent s) \<longleftrightarrow> (\<exists>b. requesting_agent s = Val b \<and> b \<noteq> [])) \<and>
   request_id_text (Val r) = r \<and> request_id_text Absent = ''N/A'' \<and>
   request_id_text PyNone = ''None'' \<and>
   (\<forall>s'. mock_a2a_communication_node s = Inr s' \<or> a2a_communication_node llm s = Inr s' \<longrightarrow>
      errors s' = errors s \<and>
      (warnings s' = warnings s \<or> (\<exists>w. warnings s' = warnings s @ [w])))"
proof -
  have l: "errors s' = errors s \<and>
      (warnings s' = warnings s \<or> (\<exists>w. warnings s' = warnings s @ [w]))"
    if "mock_a2a_communication_node s = Inr s' \<or> a2a_communication_node llm s = Inr s'" for s'
  proof (cases "truthy_str (requesting_agent s) \<and> is_set (response_data s)")
    case False
    then have "s' = s\<lparr>current_step := ''valuation_ready_for_use''\<rparr>"
      using that dispatch_standalone [of s llm] by auto
    then show ?thesis by simp
  next
    case True
    then obtain b rd' where b: "requesting_agent s = Val b" "b \<noteq> []" "response_data s = Val rd'"
      by (cases "requesting_agent s"; cases "response_data s") auto
    from that dispatch_a2a [OF b, of _]
    have "(\<exists>w. s' = s\<lparr>current_step := ''a2a_response_sent'', warnings := warnings s @ [w]\<rparr>)"
      by (cases llm; cases "property_address s = Absent") auto
    then show ?thesis by auto
  qed
  show ?thesis
    using dispatch_standalone [of s llm] dispatch_a2a [of s a rd e]
      truthy_str_iff [of "requesting_agent s"] l
    by simp
qed

lemma example_valued:
  "requesting_agent example_state_valued = Val ''MortgageApproval''"
  "request_id example_state_valued = Val ''req-1''"
  "warnings example_state_valued = []"
  "is_set (response_data example_state_valued)"
  "property_address example_state_valued \<noteq> Absent"
  by (simp_all add: example_state_valued_def example_defs stage_defs run_defs)

theorem dispatch_warning_rule_witness:
  "\<not> truthy_str (requesting_agent (initial_state None None example_request)) \<and>
   mock_a2a_communication_node (initial_state None None example_request) =
     Inr ((initial_state None None example_request)
            \<lparr>current_step := ''valuation_ready_for_use''\<rparr>) \<and>
   requesting_agent example_state_valued = Val ''MortgageApproval'' \<and>
   is_set (response_data example_state_valued) \<and>
   mock_a2a_communication_node example_state_valued =
     Inr (example_state_valued
            \<lparr>current_step := ''a2a_response_sent'',
              warnings := [''Mock response sent to MortgageApproval for request req-1'']\<rparr>) \<and>
   truthy_str (requesting_agent example_state_bare) \<and>
   \<not> is_set (response_data example_state_bare) \<and>
   mock_a2a_communication_node example_state_bare =
     Inr (example_state_bare\<lparr>current_step := ''valuation_ready_for_use''\<rparr>)"
proof -
  obtain rd where rd: "response_data example_state_valued = Val rd"
    using example_valued(4) by (cases "response_data example_state_valued") simp_all
  have n: "\<not> truthy_str (requesting_agent (initial_state None None example_request))"
    by (simp add: initial_state_def)
  have b: "truthy_str (requesting_agent example_state_bare)"
    "\<not> is_set (response_data example_state_bare)"
    by (simp_all add: example_state_bare_def initial_state_def)
  show ?thesis
    using dispatch_warning_rule [of "initial_state None None example_request"]
      dispatch_warning_rule [of example_state_valued _ "''MortgageApproval''" rd]
      dispatch_warning_rule [of example_state_bare]
      rd n b example_valued
    by simp
qed

text \<open>
  The claim C7 as stated fails: a request of another agent that gives the address only is
  routed, under the conditional policy, from the data collection to the response dispatch;
  its record has a requesting agent and no response payload, and no dispatch warning is
  appended.
\<close>

theorem dispatch_skipped_without_payload:
  "requesting_agent example_state_bare = Val ''MortgageApproval'' \<and>
   log_fields (invoke Conditional example_draws example_state_bare) =
     Some ([''Insufficient property data: missing '' @
              repr_str_list [''square_footage'', ''bedrooms'', ''bathrooms'', ''year_built'']],
           [], ''valuation_ready_for_use'')"
  by (simp add: example_state_bare_def example_request_bare_def initial_state_def
        stage_defs run_defs)

subsection \<open>Conditional routing\<close>

lemma route_forward:
  "route p n s = Inr (Some n', s') \<Longrightarrow> nodes_after n' < nodes_after n"
  by (cases p; cases n)
     (auto simp: should_continue_after_data_collection_def should_continue_after_comparables_def
        split: option.splits if_splits)

lemma data_collection_keeps:
  "estimated_value (mock_property_data_collection_node s) = estimated_value s"
  "confidence_level (mock_property_data_collection_node s) = confidence_level s"
  "valuation_range (mock_property_data_collection_node s) = valuation_range s"
  "response_data (mock_property_data_collection_node s) = response_data s"
  "comparable_properties (mock_property_data_collection_node s) = comparable_properties s"
  "comparable_analysis (mock_property_data_collection_node s) = comparable_analysis s"
  "market_adjustment (mock_property_data_collection_node s) = market_adjustment s"
  "final_assessment (mock_property_data_collection_node s) = final_assessment s"
  "property_address (mock_property_data_collection_node s) = property_address s"
  "requesting_agent (mock_property_data_collection_node s) = requesting_agent s"
  by (simp_all add: mock_property_data_collection_node_def Let_def)

lemma dispatch_keeps:
  assumes "mock_a2a_communication_node s = Inr s'"
  shows "estimated_value s' = estimated_value s \<and> confidence_level s' = confidence_level s \<and>
         valuation_range s' = valuation_range s \<and> response_data s' = response_data s \<and>
         comparable_properties s' = comparable_properties s \<and>
         comparable_analysis s' = comparable_analysis s \<and>
         market_adjustment s' = market_adjustment s \<and>
         final_assessment s' = final_assessment s"
  using mock_a2a_result [OF assms] by auto

lemma short_circuit_run:
  assumes "errors (mock_property_data_collection_node s) \<noteq> []"
  shows "run_from Conditional d DataCollection s =
           (case mock_a2a_communication_node (mock_property_data_collection_node s) of
              Inl e \<Rightarrow> Inl e
            | Inr s' \<Rightarrow> Inr ([DataCollection, A2ACommunication], s'))"
proof -
  have "run_from Conditional d A2ACommunication (mock_property_data_collection_node s) =
          (case mock_a2a_communication_node (mock_property_data_collection_node s) of
             Inl e \<Rightarrow> Inl e
           | Inr s' \<Rightarrow> Inr ([A2ACommunication], s'))"
    by (simp add: run_from.simps [of _ _ A2ACommunication] split: sum.splits)
  then show ?thesis
    using assms
    by (simp add: run_from.simps [of _ _ DataCollection]
          should_continue_after_data_collection_def split: sum.splits)
qed

lemma short_circuit_returns:
  assumes "property_address s \<noteq> Absent \<or> \<not> truthy_str (requesting_agent s) \<or>
           \<not> is_set (response_data s)"
  shows "\<exists>s'. mock_a2a_communication_node (mock_property_data_collection_node s) = Inr s'"
  using assms
  by (cases "response_data s")
     (auto simp: mock_a2a_communication_node_def data_collection_keeps)

text \<open>
  C8. Under the conditional routing policy, for every record whose error log is not empty
  after the data collection, the run goes from the data collection straight to the
  response dispatch and ends there: the comparables, the market analysis and the final
  valuation do not run. The run returns the record that the dispatch returns, with the
  list of the two stages that ran, and the result fields, the response payload and the
  analysis fields of that record are what they were at the start (unset in a record that
  the constructors build). The dispatch returns for every record that has its address
  key, as every record that the constructors build has, and for every record without a
  requesting agent or without a response payload; otherwise its exception ends the run,
  still after these two stages only.
\<close>

theorem conditional_short_circuit:
  assumes "errors (mock_property_data_collection_node s) \<noteq> []"
  shows "should_continue_after_data_collection (mock_property_data_collection_node s) =
           A2ACommunication \<and>
         run_from Conditional d DataCollection s =
           (case mock_a2a_communication_node (mock_property_data_collection_node s) of
              Inl e \<Rightarrow> Inl e
            | Inr s' \<Rightarrow> Inr ([DataCollection, A2ACommunication], s')) \<and>
         (property_address s \<noteq> Absent \<or> \<not> truthy_str (requesting_agent s) \<or>
            \<not> is_set (response_data s) \<longrightarrow>
            (\<exists>s'. run_from Conditional d DataCollection s =
                    Inr ([DataCollection, A2ACommunication], s'))) \<and>
         (\<forall>tr s'. run_from Conditional d DataCollection s = Inr (tr, s') \<longrightarrow>
            tr = [DataCollection, A2ACommunication] \<and>
            estimated_value s' = estimated_value s \<and>
            confidence_level s' = confidence_level s \<and>
            valuation_range s' = valuation_range s \<and>
            response_data s' = response_data s \<and>
            comparable_properties s' = comparable_properties s \<and>
            comparable_analysis s' = comparable_analysis s \<and>
            market_adjustment s' = market_adjustment s \<and>
            final_assessment s' = final_assessment s)"
proof -
  have r: "run_from Conditional d DataCollection s =
           (case mock_a2a_communication_node (mock_property_data_collection_node s) of
              Inl e \<Rightarrow> Inl e
            | Inr s' \<Rightarrow> Inr ([DataCollection, A2ACommunication], s'))"
    by (rule short_circuit_run [OF assms])
  have a: "should_continue_after_data_collection (mock_property_data_collection_node s) =
           A2ACommunication"
    using assms by (simp add: should_continue_after_data_collection_def)
  have b: "\<exists>s'. run_from Conditional d DataCollection s =
                    Inr ([DataCollection, A2ACommunication], s')"
    if "property_address s \<noteq> Absent \<or> \<not> truthy_str (requesting_agent s) \<or>
            \<not> is_set (response_data s)"
    using short_circuit_returns [OF that] r by auto
  have c: "tr = [DataCollection, A2ACommunication] \<and>
            estimated_value s' = estimated_value s \<and>
            confidence_level s' = confidence_level s \<and>
            valuation_range s' = valuation_range s \<and>
            response_data s' = response_data s \<and>
            comparable_properties s' = comparable_properties s \<and>
            comparable_analysis s' = comparable_analysis s \<and>
            market_adjustment s' = market_adjustment s \<and>
            final_assessment s' = final_assessment s"
    if "run_from Conditional d DataCollection s = Inr (tr, s')" for tr s'
  proof -
    from that r have m: "mock_a2a_communication_node (mock_property_data_collection_node s) =
        Inr s'" and t: "tr = [DataCollection, A2ACommunication]"
      by (auto split: sum.splits)
    show ?thesis
      using dispatch_keeps [OF m] t by (simp add: data_collection_keeps)
  qed
  from a r b c show ?thesis by blast
qed

theorem conditional_short_circuit_witness:
  "errors (mock_property_data_collection_node example_state_bare) \<noteq> [] \<and>
   property_address example_state_bare \<noteq> Absent \<and>
   map_sum id fst (run_from Conditional example_draws DataCollection example_state_bare) =
     Inr [DataCollection, A2ACommunication] \<and>
   map_sum id (\<lambda>r. estimated_value (snd r))
     (run_from Conditional example_draws DataCollection example_state_bare) = Inr PyNone"
proof -
  have e: "errors (mock_property_data_collection_node example_state_bare) \<noteq> []"
    by (simp add: example_state_bare_def example_request_bare_def initial_state_def stage_defs)
  have v: "estimated_value example_state_bare = PyNone"
    and p: "property_address example_state_bare \<noteq> Absent"
    by (simp_all add: example_state_bare_def initial_state_def example_request_bare_def)
  from conditional_short_circuit [OF e, of example_draws] p
  obtain s' where r: "run_from Conditional example_draws DataCollection example_state_bare =
      Inr ([DataCollection, A2ACommunication], s')"
    by blast
  with conditional_short_circuit [OF e, of example_draws]
  have "estimated_value s' = estimated_value example_state_bare"
    by blast
  with e p r v show ?thesis by simp
qed

subsection \<open>Attributes that are zero or missing\<close>

lemma zero_counts_as_missing:
  "missing_fields (s\<lparr>square_footage := Val 0\<rparr>) = missing_fields (s\<lparr>square_footage := Absent\<rparr>)"
  "missing_fields (s\<lparr>square_footage := Val 0\<rparr>) = missing_fields (s\<lparr>square_footage := PyNone\<rparr>)"
  "missing_fields (s\<lparr>bedrooms := Val 0\<rparr>) = missing_fields (s\<lparr>bedrooms := Absent\<rparr>)"
  "missing_fields (s\<lparr>bedrooms := Val 0\<rparr>) = missing_fields (s\<lparr>bedrooms := PyNone\<rparr>)"
  "missing_fields (s\<lparr>bathrooms := Val 0\<rparr>) = missing_fields (s\<lparr>bathrooms := Absent\<rparr>)"
  "missing_fields (s\<lparr>bathrooms := Val 0\<rparr>) = missing_fields (s\<lparr>bathrooms := PyNone\<rparr>)"
  "missing_fields (s\<lparr>year_built := Val 0\<rparr>) = missing_fields (s\<lparr>year_built := Absent\<rparr>)"
  "missing_fields (s\<lparr>year_built := Val 0\<rparr>) = missing_fields (s\<lparr>year_built := PyNone\<rparr>)"
  by (simp_all add: missing_fields_def)

lemma comparables_returns_iff:
  "(\<exists>s'. mock_comparable_properties_node d s = Inr s') \<longleftrightarrow>
     square_footage s \<noteq> PyNone \<and> bedrooms s \<noteq> PyNone \<and> bathrooms s \<noteq> PyNone"
  by (cases "square_footage s"; cases "bedrooms s"; cases "bathrooms s")
     (simp_all add: mock_comparable_properties_node_def Let_def)

lemma fallback_divisor:
  assumes "square_footage s = Val 0 \<or> square_footage s = Absent"
    and "mock_comparable_properties_node d s = Inr s'"
  shows "\<exists>ca. comparable_analysis s' = Some ca \<and>
           price_per_square_foot ca = average_sale_price ca / 2000"
  using assms
  by (auto simp: mock_comparable_properties_node_def analyse_comparables_def
        avg_price_per_sqft_def Let_def split: option.splits)

lemma none_square_footage_raises:
  assumes "square_footage s = PyNone"
  shows "mock_comparable_properties_node d s = Inl (TypeError none_plus_int)"
    and "comparable_properties_node llm d s = Inl (TypeError none_plus_int)"
  using assms
  by (simp_all add: mock_comparable_properties_node_def comparable_properties_node_def)

text \<open>
  C9. The data collection counts an attribute that holds 0 as it counts one whose key is
  missing or holds \<^verbatim>\<open>None\<close> (\<open>zero_counts_as_missing\<close>), and the comparables stage divides
  by 2000 when the square footage is 0 or its key is missing (\<open>fallback_divisor\<close>). When
  the key holds \<^verbatim>\<open>None\<close>, which is what both constructors store for a request without
  square footage, the stage does not reach the division: the sum
  \<^verbatim>\<open>base_sqft + random.randint(-200, 200)\<close> raises \<^verbatim>\<open>TypeError\<close>
  (\<open>none_square_footage_raises\<close>). The sample request without its square footage, sent
  through \<^verbatim>\<open>process_valuation_request\<close>, is counted as PARTIAL by the data collection and
  ends in the \<^verbatim>\<open>ERROR\<close> envelope of that exception.
\<close>

theorem missing_square_footage_raises:
  "square_footage
     (initial_state (Some ''req-1'') (Some ''MortgageApproval'') example_request_no_sqft) = PyNone \<and>
   missing_fields
     (initial_state (Some ''req-1'') (Some ''MortgageApproval'') example_request_no_sqft) =
     [''square_footage''] \<and>
   mock_comparable_properties_node (comparable_draw example_draws)
     (mock_property_data_collection_node
        (initial_state (Some ''req-1'') (Some ''MortgageApproval'') example_request_no_sqft)) =
     Inl (TypeError none_plus_int) \<and>
   process_valuation_request (invoke Linear example_draws) ''PropertyValuation (Mock)'' ''req-1''
     example_request_no_sqft ''MortgageApproval'' =
     [(''status'', PyStr ''ERROR''),
      (''request_id'', PyStr ''req-1''),
      (''agent'', PyStr ''PropertyValuation (Mock)''),
      (''error_message'', PyStr none_plus_int),
      (''data'', PyNull)]"
  using example_no_sqft_raises
  by (simp add: process_valuation_request_def)
     (simp add: example_request_no_sqft_def example_request_def initial_state_def stage_defs)

subsection \<open>The degraded response\<close>

lemma safe_status:
  "map_of (create_safe_response s) ''status'' =
     Some (PyStr (if truthy_num (estimated_value s) then ''PARTIAL_SUCCESS'' else ''ERROR''))"
  by (cases "estimated_value s") (simp_all add: create_safe_response_def safe_response_data_def)

lemma truthy_num_iff: "truthy_num e \<longleftrightarrow> (\<exists>v. e = Val v \<and> v \<noteq> 0)"
  by (cases e) simp_all

lemma safe_no_request_id: "\<not> has_key (create_safe_response s) ''request_id''"
  by (simp add: create_safe_response_def has_key_def)

lemma safe_rejected: "validate_a2a_response (create_safe_response s) = Inr False"
proof -
  have "map_of (create_safe_response s) ''status'' \<noteq> Some (PyStr ''SUCCESS'')"
    by (simp add: safe_status)
  then show ?thesis
    using safe_no_request_id [of s]
    by (simp add: validate_a2a_response_def required_fields_def)
qed

lemma safe_confidence_score:
  "map_of (safe_response_data s) ''confidence_score'' =
     Some (if truthy_num (estimated_value s)
           then get_value (confidence_score s) PyInt (PyInt 0) else PyInt 0)"
  by (simp add: safe_response_data_def)

text \<open>
  C10, as amended. For every record state, the envelope that \<^verbatim>\<open>create_safe_response\<close>
  builds has the status \<^verbatim>\<open>PARTIAL_SUCCESS\<close> exactly when the estimated value of the
  record is set and is not zero, and \<^verbatim>\<open>ERROR\<close> otherwise; it has no \<^verbatim>\<open>request_id\<close> key,
  so \<^verbatim>\<open>validate_a2a_response\<close> returns \<^verbatim>\<open>False\<close> for it; and with a partial estimate the
  confidence score that it reports is read from the \<open>confidence_score\<close> key of the
  record (0 when the key is missing), a key that the constructors do not pass and that no
  stage of the pipeline, in either variant, writes.
\<close>

theorem safe_response_degraded:
  "((\<exists>v. estimated_value s = Val v \<and> v \<noteq> 0) \<longrightarrow>
      map_of (create_safe_response s) ''status'' = Some (PyStr ''PARTIAL_SUCCESS'') \<and>
      map_of (safe_response_data s) ''confidence_score'' =
        Some (get_value (confidence_score s) PyInt (PyInt 0))) \<and>
   (\<not> (\<exists>v. estimated_value s = Val v \<and> v \<noteq> 0) \<longrightarrow>
      map_of (create_safe_response s) ''status'' = Some (PyStr ''ERROR'') \<and>
      map_of (safe_response_data s) ''confidence_score'' = Some (PyInt 0)) \<and>
   map_of (create_safe_response s) ''data'' = Some (PyDict (safe_response_data s)) \<and>
   \<not> has_key (create_safe_response s) ''request_id'' \<and>
   validate_a2a_response (create_safe_response s) = Inr False \<and>
   confidence_score (initial_state rid agent request_data) = Absent \<and>
   (run_node d n s = Inr s' \<longrightarrow> confidence_score s' = confidence_score s) \<and>
   (property_data_collection_node llm s = Inr s' \<or>
    comparable_properties_node llm cd s = Inr s' \<or>
    market_analysis_node llm md s = Inr s' \<or>
    final_valuation_node llm s = Inr s' \<or>
    a2a_communication_node llm s = Inr s' \<longrightarrow> confidence_score s' = confidence_score s)"
proof -
  have d: "map_of (create_safe_response s) ''data'' = Some (PyDict (safe_response_data s))"
    by (simp add: create_safe_response_def)
  have i: "confidence_score (initial_state rid agent request_data) = Absent"
    by (simp add: initial_state_def)
  show ?thesis
    using safe_status [of s] safe_confidence_score [of s] truthy_num_iff [of "estimated_value s"]
      safe_no_request_id [of s] safe_rejected [of s] d i
      score_kept_node [of d n s s'] score_kept_llm [of llm s s' cd md]
    by simp
qed

lemma example_valued_results:
  "estimated_value example_state_valued = Val 473800"
  "confidence_score example_state_valued = Absent"
  "map_option rd_confidence_score (get (response_data example_state_valued)) = Some 85"
  by (simp_all add: example_state_valued_def example_defs stage_defs run_defs)

theorem safe_response_degraded_witness:
  "estimated_value example_state_valued = Val 473800 \<and>
   map_option rd_confidence_score (get (response_data example_state_valued)) = Some 85 \<and>
   map_of (create_safe_response example_state_valued) ''status'' =
     Some (PyStr ''PARTIAL_SUCCESS'') \<and>
   map_of (safe_response_data example_state_valued) ''confidence_score'' = Some (PyInt 0) \<and>
   validate_a2a_response (create_safe_response example_state_valued) = Inr False"
  using safe_response_degraded [of example_state_valued] example_valued_results
  by simp

text \<open>
  The claim C10 as stated fails: a record whose estimated value is set to the number zero
  gets the status \<^verbatim>\<open>ERROR\<close>.
\<close>

theorem zero_estimate_reported_as_error:
  "estimated_value example_state_zero = Val 0 \<and>
   map_of (create_safe_response example_state_zero) ''status'' = Some (PyStr ''ERROR'')"
  by (simp add: example_state_zero_def create_safe_response_def safe_response_data_def)

end
